theory Spec2Isabelle
  imports Complex_Main "HOL-Library.Monad_Syntax"
begin

section \<open>Python values, dictionaries and exceptions\<close>

text \<open>
  The module \<^verbatim>\<open>covid19_inference/models.py\<close> holds one function,
  \<^verbatim>\<open>SIR_model_with_change_points\<close>. It validates two kinds of dictionaries, fills
  them with defaults in place, checks the simulation horizon and then declares the random
  variables of a PyMC3 model.

  Numbers are Python floats and integers; they are modelled as the reals and integers
  they denote. Where the code computes with floats and compares the result (line 68), the
  rounding of each operation is written out; the rounding function is a parameter.

  A \<^verbatim>\<open>datetime.datetime\<close> is naive or aware of its time zone. It is modelled by
  that flag and by its number of microseconds since a fixed epoch (counted in UTC when it
  is aware). A value of a change-point dictionary is \<^verbatim>\<open>None\<close>, a number or a datetime.
\<close>

datatype datetime = Datetime (aware: bool) (microseconds: int)

datatype pyval = PyNone | PyNum real | PyDate datetime

text \<open>
  A dictionary keeps its insertion order, which is the order in which \<^verbatim>\<open>keys()\<close>
  and \<^verbatim>\<open>items()\<close> iterate: an association list. A lookup of a missing key raises
  \<^verbatim>\<open>KeyError\<close>.

  An exception is one that a statement of the function raises itself, or one that comes
  out of a call of the PyMC3 library: \<open>PyMC3Error c\<close> is an exception of the class named
  \<open>c\<close> raised inside such a call.
\<close>

type_synonym 'v dict = "(string \<times> 'v) list"

datatype error =
    RuntimeError string
  | TypeError
  | KeyError string
  | IndexError
  | PyMC3Error string

definition contains :: "'v dict \<Rightarrow> string \<Rightarrow> bool" where
  "contains d k = (k \<in> fst ` set d)"

definition getitem :: "'v dict \<Rightarrow> string \<Rightarrow> error + 'v" where
  "getitem d k = (case map_of d k of None \<Rightarrow> Inl (KeyError k) | Some v \<Rightarrow> Inr v)"

text \<open>
  The names of the source contain the Greek letters lambda, mu and sigma. A string is a
  list of bytes, so each letter is written as its two UTF-8 bytes.
\<close>

definition lam :: string where
  "lam = [CHR 0xCE, CHR 0xBB]"

definition mu :: string where
  "mu = [CHR 0xCE, CHR 0xBC]"

definition sigma :: string where
  "sigma = [CHR 0xCF, CHR 0x83]"

text \<open>\<^verbatim>\<open>"{}".format(i)\<close> for a non-negative integer: its decimal digits.\<close>

function str_nat :: "nat \<Rightarrow> string" where
  "str_nat n = (if n < 10 then [''0123456789'' ! n]
                else str_nat (n div 10) @ [''0123456789'' ! (n mod 10)])"
  by pat_completeness auto
termination
  by (relation "measure id") auto

declare str_nat.simps [simp del]

section \<open>Defaults and validation of the configuration (lines 37 to 71)\<close>

text \<open>
  A decimal literal denotes the float nearest to it. \<^verbatim>\<open>0.5\<close> and \<^verbatim>\<open>1/8\<close> are
  floats; \<^verbatim>\<open>0.2\<close>, \<^verbatim>\<open>0.3\<close> and \<^verbatim>\<open>0.4\<close> are not, and these are the floats
  they denote (\<^verbatim>\<open>float.as_integer_ratio\<close>).
\<close>

definition float_0_2 :: real where
  "float_0_2 = 3602879701896397 / 18014398509481984"

definition float_0_3 :: real where
  "float_0_3 = 5404319552844595 / 18014398509481984"

definition float_0_4 :: real where
  "float_0_4 = 3602879701896397 / 9007199254740992"

definition default_priors :: "real dict" where
  "default_priors =
     [(''prior_beta_I_begin'', 100),
      (''prior_median_'' @ lam @ ''_0'', float_0_4),
      (''prior_sigma_'' @ lam @ ''_0'', 0.5),
      (''prior_median_'' @ mu, 1 / 8),
      (''prior_sigma_'' @ mu, float_0_2),
      (''prior_median_delay'', 8),
      (''prior_sigma_delay'', float_0_2),
      (''prior_beta_'' @ sigma @ ''_obs'', 10)]"

definition default_priors_change_points :: "pyval dict" where
  "default_priors_change_points =
     [(''prior_median_'' @ lam, PyNum float_0_4),
      (''prior_sigma_'' @ lam, PyNum 0.5),
      (''prior_sigma_date_begin_transient'', PyNum 3),
      (''prior_median_transient_len'', PyNum 3),
      (''prior_sigma_transient_len'', PyNum float_0_3),
      (''prior_mean_date_begin_transient'', PyNone)]"

definition msg_not_known :: "string \<Rightarrow> string" where
  "msg_not_known prior_name = ''Prior with name '' @ prior_name @ '' not known''"

definition msg_diff_data_sim :: string where
  "msg_diff_data_sim = ''diff_data_sim is to small compared to the prior delay''"

definition msg_num_days_sim :: string where
  "msg_num_days_sim = ''Simulation ends before the end of the data. Increase num_days_sim.''"

definition msg_not_ordered :: string where
  "msg_not_ordered = ''Dates of change points are not temporally ordered''"

text \<open>
  Lines 52 to 54, and the inner loop of lines 60 to 62: the keys of the dictionary in
  their order; the first one that is no key of the defaults raises.
\<close>

fun check_prior_names :: "'d dict \<Rightarrow> 'v dict \<Rightarrow> error option" where
  "check_prior_names defaults [] = None"
| "check_prior_names defaults ((prior_name, v) # rest) =
     (if \<not> contains defaults prior_name then Some (RuntimeError (msg_not_known prior_name))
      else check_prior_names defaults rest)"

text \<open>Lines 59 to 62: the change points in list order.\<close>

fun check_change_point_names :: "'d dict \<Rightarrow> 'v dict list \<Rightarrow> error option" where
  "check_change_point_names defaults [] = None"
| "check_change_point_names defaults (change_point # rest) =
     (case check_prior_names defaults change_point of
        Some e \<Rightarrow> Some e
      | None \<Rightarrow> check_change_point_names defaults rest)"

text \<open>
  Lines 55 to 57: every default whose name is missing is stored under its name, which
  appends it to the dictionary. The dictionary is the caller's object, so the function
  returns it updated.
\<close>

definition set_default :: "string \<Rightarrow> 'v \<Rightarrow> 'v dict \<Rightarrow> 'v dict" where
  "set_default prior_name v d = (if \<not> contains d prior_name then d @ [(prior_name, v)] else d)"

fun fill_priors :: "'v dict \<Rightarrow> 'v dict \<Rightarrow> 'v dict" where
  "fill_priors [] priors_dic = priors_dic"
| "fill_priors ((prior_name, v) # rest) priors_dic =
     fill_priors rest (set_default prior_name v priors_dic)"

text \<open>
  Lines 63 to 66: the outer loop runs over the defaults, the inner one over the change
  points. The dictionaries of the list are taken to be objects of their own, distinct from
  the priors dictionary.
\<close>

fun fill_change_points :: "'v dict \<Rightarrow> 'v dict list \<Rightarrow> 'v dict list" where
  "fill_change_points [] change_points_list = change_points_list"
| "fill_change_points ((prior_name, v) # rest) change_points_list =
     fill_change_points rest (map (set_default prior_name v) change_points_list)"

text \<open>
  Lines 68 to 71: the two checks of the simulation horizon. The threshold of line 68 is
  \<^verbatim>\<open>median + 3*median*sigma\<close>, which Python reads as \<^verbatim>\<open>median + ((3*median)*sigma)\<close>
  and evaluates in floating point: each of the three operations returns its exact result
  rounded. \<open>float_round\<close> is that rounding, from the exact result of an operation to the
  float the operation returns. \<open>diff_data_sim\<close> is an integer, and Python compares an
  integer with a float exactly. Line 70 compares integers.
\<close>

definition check_horizon ::
  "(real \<Rightarrow> real) \<Rightarrow> real dict \<Rightarrow> nat \<Rightarrow> int \<Rightarrow> int \<Rightarrow> error option" where
  "check_horizon float_round priors_dic len_new_cases_obs num_days_sim diff_data_sim =
     (case getitem priors_dic ''prior_median_delay'' of
        Inl e \<Rightarrow> Some e
      | Inr median_delay \<Rightarrow>
     (case getitem priors_dic ''prior_sigma_delay'' of
        Inl e \<Rightarrow> Some e
      | Inr sigma_delay \<Rightarrow>
        if real_of_int diff_data_sim
             < float_round (median_delay + float_round (float_round (3 * median_delay) * sigma_delay))
        then Some (RuntimeError msg_diff_data_sim)
        else if num_days_sim < int len_new_cases_obs + diff_data_sim
        then Some (RuntimeError msg_num_days_sim)
        else None))"

section \<open>The model context (lines 73 to 154)\<close>

text \<open>
  Inside \<^verbatim>\<open>with pm.Model()\<close> every call of a distribution registers a named variable
  and returns it; arithmetic on variables builds a symbolic expression. The functions
  \<^verbatim>\<open>_smooth_step_function\<close>, \<^verbatim>\<open>_SIR_model\<close> and \<^verbatim>\<open>_delay_cases\<close> live in a module
  that is not part of the sources: a call of one of them is a node of the expression,
  and its meaning is a parameter of the evaluation below.
\<close>

datatype expr =
    Val pyval
  | RV string
  | Add expr expr
  | Sub expr expr
  | Mul expr expr
  | Power expr expr
  | Abs expr
  | Log expr
  | Slice expr nat
  | SmoothStep expr expr expr expr int
  | SIR_new_I expr expr expr expr expr
  | DelayCases expr int int expr int

abbreviation Num :: "real \<Rightarrow> expr" where
  "Num x \<equiv> Val (PyNum x)"

datatype dist =
    HalfCauchy expr
  | Lognormal expr expr
  | Normal expr expr
  | StudentT expr expr expr "real list"
  | Deterministic expr

type_synonym var = "string \<times> dist"

text \<open>
  What the function does not own is a parameter of the model: the PyMC3 library and the
  rounding of floating-point arithmetic.

  A call \<^verbatim>\<open>pm.X(name, ...)\<close> either raises or registers the variable \<open>name\<close> and
  returns it. The library decides which: it is known to raise, for instance, on a
  \<^verbatim>\<open>sigma\<close> that is 0, and when \<^verbatim>\<open>pm.Deterministic\<close> is handed a Python number
  instead of a tensor. \<open>pm_raises m name d = Some c\<close> says that, with the variables
  \<open>m\<close> declared so far, the call that would register \<open>d\<close> under \<open>name\<close> raises an
  exception of class \<open>c\<close>; \<open>None\<close> says that the call registers the variable.
\<close>

record environment =
  pm_raises :: "var list \<Rightarrow> string \<Rightarrow> dist \<Rightarrow> string option"
  float_round :: "real \<Rightarrow> real"

text \<open>
  A step inside the model context either raises, and then the variables declared so far
  are kept beside the exception, or returns a value and the variables declared so far.
\<close>

type_synonym 'a exec = "(error \<times> var list) + ('a \<times> var list)"

definition pm_call :: "environment \<Rightarrow> string \<Rightarrow> dist \<Rightarrow> var list \<Rightarrow> expr exec" where
  "pm_call E name d m =
     (case pm_raises E m name d of
        Some c \<Rightarrow> Inl (PyMC3Error c, m)
      | None \<Rightarrow> Inr (RV name, m @ [(name, d)]))"

text \<open>
  \<^verbatim>\<open>np.log\<close> of a value of a change-point dictionary: a number, or a type error. On a
  number that is not positive \<^verbatim>\<open>np.log\<close> warns and returns no finite number; it does
  not raise.
\<close>

fun np_log :: "pyval \<Rightarrow> error + expr" where
  "np_log (PyNum x) = Inr (Log (Num x))"
| "np_log v = Inl TypeError"

text \<open>Lines 75 and 79.\<close>

definition declare_I_begin :: "environment \<Rightarrow> real dict \<Rightarrow> var list \<Rightarrow> expr exec" where
  "declare_I_begin E priors_dic m =
     (case getitem priors_dic ''prior_beta_I_begin'' of
        Inl e \<Rightarrow> Inl (e, m)
      | Inr beta \<Rightarrow> pm_call E ''I_begin'' (HalfCauchy (Num beta)) m)"

definition declare_lam_0 :: "environment \<Rightarrow> real dict \<Rightarrow> var list \<Rightarrow> expr exec" where
  "declare_lam_0 E priors_dic m =
     (case getitem priors_dic (''prior_median_'' @ lam @ ''_0'') of
        Inl e \<Rightarrow> Inl (e, m)
      | Inr median \<Rightarrow>
     (case getitem priors_dic (''prior_sigma_'' @ lam @ ''_0'') of
        Inl e \<Rightarrow> Inl (e, m)
      | Inr sg \<Rightarrow> pm_call E (lam @ ''_0'') (Lognormal (Log (Num median)) (Num sg)) m))"

text \<open>Lines 80 to 83: \<^verbatim>\<open>enumerate\<close> counts from \<open>i\<close>; the list of rates grows.\<close>

fun declare_lam_list ::
  "environment \<Rightarrow> nat \<Rightarrow> pyval dict list \<Rightarrow> expr list \<Rightarrow> var list \<Rightarrow> expr list exec" where
  "declare_lam_list E i [] lam_list m = Inr (lam_list, m)"
| "declare_lam_list E i (change_point # rest) lam_list m =
     (case getitem change_point (''prior_median_'' @ lam) of
        Inl e \<Rightarrow> Inl (e, m)
      | Inr median \<Rightarrow>
     (case np_log median of
        Inl e \<Rightarrow> Inl (e, m)
      | Inr log_median \<Rightarrow>
     (case getitem change_point (''prior_sigma_'' @ lam) of
        Inl e \<Rightarrow> Inl (e, m)
      | Inr sg \<Rightarrow>
     (case pm_call E (lam @ ''_'' @ str_nat (i + 1)) (Lognormal log_median (Val sg)) m of
        Inl x \<Rightarrow> Inl x
      | Inr (lam_i, m') \<Rightarrow> declare_lam_list E (i + 1) rest (lam_list @ [lam_i]) m'))))"

text \<open>
  Line 90: \<^verbatim>\<open>date_before is not None and date_before > date_begin_transient\<close>. Two
  datetimes compare when both are naive or both are aware, two numbers compare, anything
  else is a type error.
\<close>

fun date_before_gt :: "pyval \<Rightarrow> pyval \<Rightarrow> error + bool" where
  "date_before_gt PyNone date_begin_transient = Inr False"
| "date_before_gt (PyDate a) (PyDate b) =
     (if aware a = aware b then Inr (microseconds a > microseconds b) else Inl TypeError)"
| "date_before_gt (PyNum a) (PyNum b) = Inr (a > b)"
| "date_before_gt date_before date_begin_transient = Inl TypeError"

text \<open>
  Line 92: \<^verbatim>\<open>(date_begin_transient - date_begin_simulation).days\<close>, the whole days of
  the difference, rounded down. Only a datetime can be subtracted from a datetime, and
  only when both are naive or both are aware.
\<close>

fun days_since :: "datetime \<Rightarrow> pyval \<Rightarrow> error + int" where
  "days_since date_begin_simulation (PyDate d) =
     (if aware d = aware date_begin_simulation
      then Inr ((microseconds d - microseconds date_begin_simulation) div 86400000000)
      else Inl TypeError)"
| "days_since date_begin_simulation v = Inl TypeError"

text \<open>Lines 86 to 96.\<close>

fun declare_transient_begin ::
  "environment \<Rightarrow> datetime \<Rightarrow> nat \<Rightarrow> pyval \<Rightarrow> pyval dict list \<Rightarrow> expr list \<Rightarrow> var list
   \<Rightarrow> expr list exec" where
  "declare_transient_begin E date_begin_simulation i date_before [] transient_begin_list m =
     Inr (transient_begin_list, m)"
| "declare_transient_begin E date_begin_simulation i date_before (change_point # rest)
     transient_begin_list m =
     (case getitem change_point ''prior_mean_date_begin_transient'' of
        Inl e \<Rightarrow> Inl (e, m)
      | Inr date_begin_transient \<Rightarrow>
     (case date_before_gt date_before date_begin_transient of
        Inl e \<Rightarrow> Inl (e, m)
      | Inr True \<Rightarrow> Inl (RuntimeError msg_not_ordered, m)
      | Inr False \<Rightarrow>
     (case days_since date_begin_simulation date_begin_transient of
        Inl e \<Rightarrow> Inl (e, m)
      | Inr prior_day_begin_transient \<Rightarrow>
     (case getitem change_point ''prior_sigma_date_begin_transient'' of
        Inl e \<Rightarrow> Inl (e, m)
      | Inr sg \<Rightarrow>
     (case pm_call E (''transient_begin_'' @ str_nat i)
             (Normal (Num (real_of_int prior_day_begin_transient)) (Val sg)) m of
        Inl x \<Rightarrow> Inl x
      | Inr (transient_begin, m') \<Rightarrow>
          declare_transient_begin E date_begin_simulation (i + 1) date_begin_transient rest
            (transient_begin_list @ [transient_begin]) m')))))"

text \<open>Lines 100 to 105.\<close>

fun declare_transient_len ::
  "environment \<Rightarrow> nat \<Rightarrow> pyval dict list \<Rightarrow> expr list \<Rightarrow> var list \<Rightarrow> expr list exec" where
  "declare_transient_len E i [] transient_len_list m = Inr (transient_len_list, m)"
| "declare_transient_len E i (change_point # rest) transient_len_list m =
     (case getitem change_point ''prior_median_transient_len'' of
        Inl e \<Rightarrow> Inl (e, m)
      | Inr median \<Rightarrow>
     (case np_log median of
        Inl e \<Rightarrow> Inl (e, m)
      | Inr log_median \<Rightarrow>
     (case getitem change_point ''prior_sigma_transient_len'' of
        Inl e \<Rightarrow> Inl (e, m)
      | Inr sg \<Rightarrow>
     (case pm_call E (''transient_len_'' @ str_nat i) (Lognormal log_median (Val sg)) m of
        Inl x \<Rightarrow> Inl x
      | Inr (transient_len, m') \<Rightarrow>
          declare_transient_len E (i + 1) rest (transient_len_list @ [transient_len]) m'))))"

text \<open>
  Lines 109 to 118. The loop runs over the zipped lists; \<open>lam_step_before\<close> is set once
  before the loop and the body does not assign it. \<^verbatim>\<open>sum\<close> starts from the integer 0,
  so the sum of no increment is that Python integer, and the sum of one increment or
  more is a tensor.
\<close>

fun lam_t_loop :: "int \<Rightarrow> expr \<Rightarrow> (expr \<times> expr \<times> expr) list \<Rightarrow> expr list \<Rightarrow> expr list" where
  "lam_t_loop num_days_sim lam_step_before [] lam_t_list = lam_t_list"
| "lam_t_loop num_days_sim lam_step_before ((transient_begin, transient_len, lam_step) # rest)
     lam_t_list =
     lam_t_loop num_days_sim lam_step_before rest
       (lam_t_list @
        [Mul (SmoothStep (Num 0) (Num 1) transient_begin (Add transient_begin transient_len)
                num_days_sim)
             (Sub lam_step lam_step_before)])"

definition py_sum :: "expr list \<Rightarrow> expr" where
  "py_sum xs = foldl Add (Num 0) xs"

definition build_lam_t :: "expr list \<Rightarrow> expr list \<Rightarrow> expr list \<Rightarrow> int \<Rightarrow> error + expr" where
  "build_lam_t lam_list transient_begin_list transient_len_list num_days_sim =
     (case lam_list of
        [] \<Rightarrow> Inl IndexError
      | lam_0 # lam_rest \<Rightarrow>
          Inr (py_sum (lam_t_loop num_days_sim lam_0
                 (zip transient_begin_list (zip transient_len_list lam_rest)) [])))"

text \<open>Lines 121 to 154: the remaining priors, the SIR run, the delay and the likelihood.\<close>

definition declare_observation ::
  "environment \<Rightarrow> real list \<Rightarrow> int \<Rightarrow> int \<Rightarrow> real dict \<Rightarrow> expr \<Rightarrow> expr \<Rightarrow> var list
   \<Rightarrow> unit exec" where
  "declare_observation E new_cases_obs num_days_sim diff_data_sim priors_dic I_begin lam_t m =
     (case getitem priors_dic (''prior_median_'' @ mu) of
        Inl e \<Rightarrow> Inl (e, m)
      | Inr median_mu \<Rightarrow>
     (case getitem priors_dic (''prior_sigma_'' @ mu) of
        Inl e \<Rightarrow> Inl (e, m)
      | Inr sigma_mu \<Rightarrow>
     (case pm_call E mu (Lognormal (Log (Num median_mu)) (Num sigma_mu)) m of
        Inl x \<Rightarrow> Inl x
      | Inr (mu_var, m1) \<Rightarrow>
     (case getitem priors_dic ''prior_median_delay'' of
        Inl e \<Rightarrow> Inl (e, m1)
      | Inr median_delay \<Rightarrow>
     (case getitem priors_dic ''prior_sigma_delay'' of
        Inl e \<Rightarrow> Inl (e, m1)
      | Inr sigma_delay \<Rightarrow>
     (case pm_call E ''delay'' (Lognormal (Log (Num median_delay)) (Num sigma_delay)) m1 of
        Inl x \<Rightarrow> Inl x
      | Inr (delay, m2) \<Rightarrow>
     (case getitem priors_dic (''prior_beta_'' @ sigma @ ''_obs'') of
        Inl e \<Rightarrow> Inl (e, m2)
      | Inr beta \<Rightarrow>
     (case pm_call E (sigma @ ''_obs'') (HalfCauchy (Num beta)) m2 of
        Inl x \<Rightarrow> Inl x
      | Inr (sigma_obs, m3) \<Rightarrow>
     (let N_germany = Num 83000000;
          S_begin = Sub N_germany I_begin;
          new_I = SIR_new_I lam_t mu_var S_begin I_begin N_germany;
          new_cases_inferred =
            DelayCases new_I num_days_sim (num_days_sim - diff_data_sim) delay diff_data_sim;
          num_days_data = length new_cases_obs
      in
      case pm_call E ''obs''
             (StudentT (Num 4)
                (Slice new_cases_inferred num_days_data)
                (Mul (Power (Abs (Add (Slice new_cases_inferred num_days_data) (Num 1)))
                        (Num 0.5))
                     sigma_obs)
                new_cases_obs) m3 of
        Inl x \<Rightarrow> Inl x
      | Inr (obs, m4) \<Rightarrow>
     (case pm_call E (lam @ ''_t'') (Deterministic lam_t) m4 of
        Inl x \<Rightarrow> Inl x
      | Inr (lam_t_var, m5) \<Rightarrow>
     (case pm_call E ''new_cases'' (Deterministic new_cases_inferred) m5 of
        Inl x \<Rightarrow> Inl x
      | Inr (new_cases, m6) \<Rightarrow> Inr ((), m6))))))))))))"

text \<open>The body of the \<^verbatim>\<open>with\<close> block, lines 73 to 154, on the filled dictionaries.\<close>

definition model_context ::
  "environment \<Rightarrow> real list \<Rightarrow> pyval dict list \<Rightarrow> datetime \<Rightarrow> int \<Rightarrow> int \<Rightarrow> real dict
   \<Rightarrow> unit exec" where
  "model_context E new_cases_obs change_points_list date_begin_simulation num_days_sim
     diff_data_sim priors_dic =
     (case declare_I_begin E priors_dic [] of
        Inl x \<Rightarrow> Inl x
      | Inr (I_begin, m1) \<Rightarrow>
     (case declare_lam_0 E priors_dic m1 of
        Inl x \<Rightarrow> Inl x
      | Inr (lam_0, m2) \<Rightarrow>
     (case declare_lam_list E 0 change_points_list [lam_0] m2 of
        Inl x \<Rightarrow> Inl x
      | Inr (lam_list, m3) \<Rightarrow>
     (case declare_transient_begin E date_begin_simulation 0 PyNone change_points_list [] m3 of
        Inl x \<Rightarrow> Inl x
      | Inr (transient_begin_list, m4) \<Rightarrow>
     (case declare_transient_len E 0 change_points_list [] m4 of
        Inl x \<Rightarrow> Inl x
      | Inr (transient_len_list, m5) \<Rightarrow>
     (case build_lam_t lam_list transient_begin_list transient_len_list num_days_sim of
        Inl e \<Rightarrow> Inl (e, m5)
      | Inr lam_t \<Rightarrow>
          declare_observation E new_cases_obs num_days_sim diff_data_sim priors_dic
            I_begin lam_t m5))))))"

section \<open>The entry point\<close>

text \<open>
  What a call leaves behind: the exception it raised, if any; the variables declared in
  the model context when the call ended (the model it returns, when it returns); and the
  dictionaries bound to \<^verbatim>\<open>priors_dic\<close> and to the entries of
  \<^verbatim>\<open>change_points_list\<close>, which are the caller's objects when the caller supplied
  them.
\<close>

record outcome =
  raised :: "error option"
  model :: "var list"
  priors_dic_final :: "real dict"
  change_points_final :: "pyval dict list"

definition SIR_model_with_change_points ::
  "environment \<Rightarrow> real list \<Rightarrow> pyval dict list \<Rightarrow> datetime \<Rightarrow> int \<Rightarrow> int
   \<Rightarrow> real dict option \<Rightarrow> outcome" where
  "SIR_model_with_change_points E new_cases_obs change_points_list date_begin_simulation
     num_days_sim diff_data_sim priors_arg =
     (let priors_dic = (case priors_arg of None \<Rightarrow> [] | Some d \<Rightarrow> d) in
      case check_prior_names default_priors priors_dic of
        Some e \<Rightarrow>
          \<lparr>raised = Some e, model = [], priors_dic_final = priors_dic,
           change_points_final = change_points_list\<rparr>
      | None \<Rightarrow>
     (let priors_dic = fill_priors default_priors priors_dic in
      case check_change_point_names default_priors_change_points change_points_list of
        Some e \<Rightarrow>
          \<lparr>raised = Some e, model = [], priors_dic_final = priors_dic,
           change_points_final = change_points_list\<rparr>
      | None \<Rightarrow>
     (let change_points_list =
            fill_change_points default_priors_change_points change_points_list in
      case check_horizon (float_round E) priors_dic (length new_cases_obs) num_days_sim
             diff_data_sim of
        Some e \<Rightarrow>
          \<lparr>raised = Some e, model = [], priors_dic_final = priors_dic,
           change_points_final = change_points_list\<rparr>
      | None \<Rightarrow>
     (case model_context E new_cases_obs change_points_list date_begin_simulation
             num_days_sim diff_data_sim priors_dic of
        Inl (e, m) \<Rightarrow>
          \<lparr>raised = Some e, model = m, priors_dic_final = priors_dic,
           change_points_final = change_points_list\<rparr>
      | Inr (u, m) \<Rightarrow>
          \<lparr>raised = None, model = m, priors_dic_final = priors_dic,
           change_points_final = change_points_list\<rparr>))))"

section \<open>Evaluation of expressions\<close>

text \<open>
  A tensor is a scalar or a vector; arithmetic broadcasts a scalar over a vector and
  needs equal lengths of two vectors. The three functions of the missing module are
  parameters. Exponentiation is \<open>powr\<close>, which is Python's power on a base that is
  not negative; the model applies it to an absolute value only.
\<close>

datatype tensor = Scalar real | Vec "real list"

fun tmap :: "(real \<Rightarrow> real) \<Rightarrow> tensor \<Rightarrow> tensor" where
  "tmap f (Scalar a) = Scalar (f a)"
| "tmap f (Vec xs) = Vec (map f xs)"

fun broadcast :: "(real \<Rightarrow> real \<Rightarrow> real) \<Rightarrow> tensor \<Rightarrow> tensor \<Rightarrow> tensor option" where
  "broadcast f (Scalar a) (Scalar b) = Some (Scalar (f a b))"
| "broadcast f (Scalar a) (Vec ys) = Some (Vec (map (f a) ys))"
| "broadcast f (Vec xs) (Scalar b) = Some (Vec (map (\<lambda>x. f x b) xs))"
| "broadcast f (Vec xs) (Vec ys) =
     (if length xs = length ys then Some (Vec (map2 f xs ys)) else None)"

fun slice :: "tensor \<Rightarrow> nat \<Rightarrow> tensor option" where
  "slice (Scalar a) n = None"
| "slice (Vec xs) n = Some (Vec (take n xs))"

record helpers =
  smooth_step_function :: "tensor \<Rightarrow> tensor \<Rightarrow> tensor \<Rightarrow> tensor \<Rightarrow> int \<Rightarrow> tensor"
  SIR_model :: "tensor \<Rightarrow> tensor \<Rightarrow> tensor \<Rightarrow> tensor \<Rightarrow> tensor \<Rightarrow> tensor \<times> tensor \<times> tensor"
  delay_cases :: "tensor \<Rightarrow> int \<Rightarrow> int \<Rightarrow> tensor \<Rightarrow> int \<Rightarrow> tensor"

fun eval :: "helpers \<Rightarrow> (string \<Rightarrow> real) \<Rightarrow> expr \<Rightarrow> tensor option" where
  "eval H s (Val v) = (case v of PyNum x \<Rightarrow> Some (Scalar x) | _ \<Rightarrow> None)"
| "eval H s (RV name) = Some (Scalar (s name))"
| "eval H s (Add a b) = do { x \<leftarrow> eval H s a; y \<leftarrow> eval H s b; broadcast (+) x y }"
| "eval H s (Sub a b) = do { x \<leftarrow> eval H s a; y \<leftarrow> eval H s b; broadcast (-) x y }"
| "eval H s (Mul a b) = do { x \<leftarrow> eval H s a; y \<leftarrow> eval H s b; broadcast (*) x y }"
| "eval H s (Power a b) = do { x \<leftarrow> eval H s a; y \<leftarrow> eval H s b; broadcast (powr) x y }"
| "eval H s (Abs a) = do { x \<leftarrow> eval H s a; Some (tmap abs x) }"
| "eval H s (Log a) = do { x \<leftarrow> eval H s a; Some (tmap ln x) }"
| "eval H s (Slice a n) = do { x \<leftarrow> eval H s a; slice x n }"
| "eval H s (SmoothStep a b c d n) =
     do { a' \<leftarrow> eval H s a; b' \<leftarrow> eval H s b; c' \<leftarrow> eval H s c; d' \<leftarrow> eval H s d;
          Some (smooth_step_function H a' b' c' d' n) }"
| "eval H s (SIR_new_I l r S_begin I_begin N) =
     do { l' \<leftarrow> eval H s l; r' \<leftarrow> eval H s r; S' \<leftarrow> eval H s S_begin;
          I' \<leftarrow> eval H s I_begin; N' \<leftarrow> eval H s N;
          Some (snd (snd (SIR_model H l' r' S' I' N'))) }"
| "eval H s (DelayCases new_I len_new_I_t len_new_cases_obs delay delay_arr) =
     do { x \<leftarrow> eval H s new_I; d \<leftarrow> eval H s delay;
          Some (delay_cases H x len_new_I_t len_new_cases_obs d delay_arr) }"

section \<open>Notions of the statements\<close>

text \<open>The keys of a dictionary.\<close>

definition keys :: "'v dict \<Rightarrow> string set" where
  "keys d = fst ` set d"

text \<open>
  The names of the variables that lines 75 to 154 declare for \<open>n\<close> change points, in
  the order of their declaration.
\<close>

definition variable_names :: "nat \<Rightarrow> string list" where
  "variable_names n =
     [''I_begin'', lam @ ''_0''] @
     map (\<lambda>i. lam @ ''_'' @ str_nat (i + 1)) [0..<n] @
     map (\<lambda>i. ''transient_begin_'' @ str_nat i) [0..<n] @
     map (\<lambda>i. ''transient_len_'' @ str_nat i) [0..<n] @
     [mu, ''delay'', sigma @ ''_obs'', ''obs'', lam @ ''_t'', ''new_cases'']"

text \<open>
  The lists that lines 78 to 105 build for \<open>n\<close> change points: the rates, the begins of
  the transients and their lengths.
\<close>

definition lam_vars :: "nat \<Rightarrow> expr list" where
  "lam_vars n = RV (lam @ ''_0'') # map (\<lambda>i. RV (lam @ ''_'' @ str_nat (i + 1))) [0..<n]"

definition transient_begin_vars :: "nat \<Rightarrow> expr list" where
  "transient_begin_vars n = map (\<lambda>i. RV (''transient_begin_'' @ str_nat i)) [0..<n]"

definition transient_len_vars :: "nat \<Rightarrow> expr list" where
  "transient_len_vars n = map (\<lambda>i. RV (''transient_len_'' @ str_nat i)) [0..<n]"

text \<open>
  The expression that lines 135 to 141 build for the inferred cases from the rate: the
  new infections of the SIR run, started from \<^verbatim>\<open>I_begin\<close> infected among 83 million,
  delayed by the variable \<^verbatim>\<open>delay\<close>.
\<close>

definition inferred :: "expr \<Rightarrow> int \<Rightarrow> int \<Rightarrow> expr" where
  "inferred lam_t num_days_sim diff_data_sim =
     DelayCases
       (SIR_new_I lam_t (RV mu) (Sub (Num 83000000) (RV ''I_begin'')) (RV ''I_begin'')
          (Num 83000000))
       num_days_sim (num_days_sim - diff_data_sim) (RV ''delay'') diff_data_sim"

text \<open>
  The scale of the likelihood in the words of the specification: the root of the
  expected count plus one, times the noise scale, day by day.
\<close>

definition claimed_scale :: "real list \<Rightarrow> real \<Rightarrow> real list" where
  "claimed_scale expected_count sigma_obs = map (\<lambda>e. sqrt (e + 1) * sigma_obs) expected_count"

text \<open>
  The lead time in the words of the specification: the mean of the delay prior plus three
  of its standard deviations. The delay prior is log-normal with the given median and
  sigma, so its mean is \<open>median * exp (sigma\<^sup>2 / 2)\<close> and its standard deviation is the
  mean times \<open>sqrt (exp (sigma\<^sup>2) - 1)\<close>.
\<close>

definition lognormal_mean :: "real \<Rightarrow> real \<Rightarrow> real" where
  "lognormal_mean median sg = median * exp (sg ^ 2 / 2)"

definition lognormal_sd :: "real \<Rightarrow> real \<Rightarrow> real" where
  "lognormal_sd median sg = lognormal_mean median sg * sqrt (exp (sg ^ 2) - 1)"

definition claimed_lead_time :: "real \<Rightarrow> real \<Rightarrow> real" where
  "claimed_lead_time median sg = lognormal_mean median sg + 3 * lognormal_sd median sg"

text \<open>
  What is used of the rounding of floats: it is monotone, and an integer of magnitude up
  to \<open>2 ^ 53\<close> is a float, so it is rounded to itself. Rounding to the nearest float, which
  is what Python's arithmetic does, has both properties.
\<close>

definition rounding :: "(real \<Rightarrow> real) \<Rightarrow> bool" where
  "rounding fl \<longleftrightarrow>
     (\<forall>x y. x \<le> y \<longrightarrow> fl x \<le> fl y) \<and>
     (\<forall>k :: int. \<bar>k\<bar> \<le> 2 ^ 53 \<longrightarrow> fl (real_of_int k) = real_of_int k)"

text \<open>
  The floats of line 68 stay finite, and the integers among them stay exact, when the
  supplied priors of the delay have a magnitude of at most \<open>10 ^ 6\<close>; the defaults have.
\<close>

definition delay_prior_in_range :: "real dict \<Rightarrow> bool" where
  "delay_prior_in_range priors_dic \<longleftrightarrow>
     (\<forall>v. map_of priors_dic ''prior_median_delay'' = Some v \<longrightarrow> \<bar>v\<bar> \<le> 10 ^ 6) \<and>
     (\<forall>v. map_of priors_dic ''prior_sigma_delay'' = Some v \<longrightarrow> \<bar>v\<bar> \<le> 10 ^ 6)"

text \<open>
  Concrete arguments for the examples. \<open>day n\<close> is the naive datetime \<open>n\<close> days after the
  epoch, and \<open>change_point_on n\<close> is a change point that supplies this date only. The
  helper functions return a fixed step and fixed inferred cases.

  The environment of the examples refuses the calls that PyMC3 is known to refuse: a
  log-normal or normal prior whose sigma is 0 (\<^verbatim>\<open>ZeroDivisionError\<close>), a log-normal
  prior whose median is not positive (\<^verbatim>\<open>AttributeError\<close>), and a deterministic variable
  that is a Python number (\<^verbatim>\<open>AttributeError\<close>). It accepts the other calls, and its
  arithmetic is exact. The examples use positive priors, dates and at least one change
  point where they return a model.
\<close>

definition day :: "int \<Rightarrow> datetime" where
  "day n = Datetime False (n * 86400000000)"

definition change_point_on :: "int \<Rightarrow> pyval dict" where
  "change_point_on n = [(''prior_mean_date_begin_transient'', PyDate (day n))]"

definition constant_helpers :: "real list \<Rightarrow> real list \<Rightarrow> helpers" where
  "constant_helpers step cases =
     \<lparr>smooth_step_function = (\<lambda>a b c d n. Vec step),
      SIR_model = (\<lambda>l r S I N. (Vec [], Vec [], Vec [])),
      delay_cases = (\<lambda>x a b d c. Vec cases)\<rparr>"

definition example_pm :: "var list \<Rightarrow> string \<Rightarrow> dist \<Rightarrow> string option" where
  "example_pm m name d =
     (case d of
        Lognormal log_median sg \<Rightarrow>
          (if sg = Num 0 then Some ''ZeroDivisionError''
           else (case log_median of
                   Log (Val (PyNum median)) \<Rightarrow>
                     if median \<le> 0 then Some ''AttributeError'' else None
                 | _ \<Rightarrow> None))
      | Normal mean sg \<Rightarrow> (if sg = Num 0 then Some ''ZeroDivisionError'' else None)
      | Deterministic (Val v) \<Rightarrow> Some ''AttributeError''
      | _ \<Rightarrow> None)"

definition example_environment :: environment where
  "example_environment = \<lparr>pm_raises = example_pm, float_round = (\<lambda>x. x)\<rparr>"

section \<open>Dictionaries\<close>

lemma contains_iff: "contains d k \<longleftrightarrow> map_of d k \<noteq> None"
  by (simp add: contains_def map_of_eq_None_iff)

lemma contains_append: "contains (d @ e) k \<longleftrightarrow> contains d k \<or> contains e k"
  by (auto simp: contains_def)

lemma map_of_set_default:
  "map_of (set_default k v d) k' = map_of (d @ [(k, v)]) k'"
  by (auto simp: set_default_def contains_iff map_add_def split: option.splits)

lemma map_of_fill_priors: "map_of (fill_priors defs d) k = map_of (d @ defs) k"
proof (induction defs arbitrary: d)
  case Nil
  then show ?case by simp
next
  case (Cons a defs)
  obtain k0 v0 where a: "a = (k0, v0)" by (cases a)
  have "map_of (fill_priors (a # defs) d) k = map_of (set_default k0 v0 d @ defs) k"
    using Cons.IH [of "set_default k0 v0 d"] a by simp
  also have "\<dots> = map_of (d @ a # defs) k"
    using map_of_set_default [of k0 v0 d] a
    by (auto simp: map_add_def split: option.splits)
  finally show ?case .
qed

lemma fill_priors_append_filter:
  "distinct (map fst defs) \<Longrightarrow>
   fill_priors defs d = d @ filter (\<lambda>(k, v). \<not> contains d k) defs"
proof (induction defs arbitrary: d)
  case Nil
  then show ?case by simp
next
  case (Cons a defs)
  obtain k0 v0 where a: "a = (k0, v0)" by (cases a)
  from Cons.prems a have k0: "k0 \<notin> fst ` set defs" and dist: "distinct (map fst defs)"
    by auto
  show ?case
  proof (cases "contains d k0")
    case True
    then show ?thesis using Cons.IH [OF dist, of d] a by (simp add: set_default_def)
  next
    case False
    have "filter (\<lambda>(k, v). \<not> contains (d @ [(k0, v0)]) k) defs
          = filter (\<lambda>(k, v). \<not> contains d k) defs"
      using k0 by (intro filter_cong) (force simp: contains_def)+
    then show ?thesis
      using False Cons.IH [OF dist, of "d @ [(k0, v0)]"] a by (simp add: set_default_def)
  qed
qed

lemma fill_change_points_map:
  "fill_change_points defs cps = map (fill_priors defs) cps"
proof (induction defs arbitrary: cps)
  case Nil
  then show ?case by simp
next
  case (Cons a defs)
  obtain k0 v0 where a: "a = (k0, v0)" by (cases a)
  show ?case using Cons.IH [of "map (set_default k0 v0) cps"] a by simp
qed

lemma check_prior_names_None_iff:
  "(check_prior_names defs d = None) = (fst ` set d \<subseteq> fst ` set defs)"
  by (induction d) (force simp: contains_def split: if_splits)+

lemma check_prior_names_Some:
  "check_prior_names defs d = Some e \<Longrightarrow>
   \<exists>name. name \<in> fst ` set d \<and> name \<notin> fst ` set defs \<and> e = RuntimeError (msg_not_known name)"
proof (induction d)
  case Nil
  then show ?case by simp
next
  case (Cons a d)
  obtain k0 v0 where a: "a = (k0, v0)" by (cases a)
  show ?case
  proof (cases "contains defs k0")
    case True
    then have "check_prior_names defs d = Some e" using Cons.prems a by simp
    from Cons.IH [OF this] show ?thesis by auto
  next
    case False
    then have "e = RuntimeError (msg_not_known k0)" using Cons.prems a by simp
    moreover have "k0 \<in> fst ` set (a # d)" using a by force
    moreover have "k0 \<notin> fst ` set defs" using False by (simp add: contains_def)
    ultimately show ?thesis by blast
  qed
qed

lemma check_change_point_names_None_iff:
  "(check_change_point_names defs cps = None) = (\<forall>cp \<in> set cps. fst ` set cp \<subseteq> fst ` set defs)"
proof (induction cps)
  case Nil
  then show ?case by simp
next
  case (Cons cp cps)
  show ?case
  proof (cases "check_prior_names defs cp")
    case None
    then show ?thesis using Cons check_prior_names_None_iff [of defs cp] by simp
  next
    case (Some e)
    then have "\<not> fst ` set cp \<subseteq> fst ` set defs"
      using check_prior_names_None_iff [of defs cp] by simp
    then show ?thesis using Some by simp
  qed
qed

lemma check_change_point_names_Some:
  "check_change_point_names defs cps = Some e \<Longrightarrow>
   \<exists>cp \<in> set cps. \<exists>name. name \<in> fst ` set cp \<and> name \<notin> fst ` set defs
       \<and> e = RuntimeError (msg_not_known name)"
proof (induction cps)
  case Nil
  then show ?case by simp
next
  case (Cons cp cps)
  show ?case
  proof (cases "check_prior_names defs cp")
    case None
    then show ?thesis using Cons by auto
  next
    case (Some e')
    then have "e' = e" using Cons.prems by simp
    then show ?thesis using check_prior_names_Some [OF Some] by auto
  qed
qed

lemma getitem_fill_priors:
  "getitem (fill_priors defs d) k =
     (case map_of (d @ defs) k of None \<Rightarrow> Inl (KeyError k) | Some v \<Rightarrow> Inr v)"
  by (simp add: getitem_def map_of_fill_priors)

lemma getitem_Inr_iff: "getitem d k = Inr v \<longleftrightarrow> map_of d k = Some v"
  by (simp add: getitem_def split: option.splits)

lemma getitem_contains: "contains d k \<Longrightarrow> \<exists>v. getitem d k = Inr v"
  by (auto simp: getitem_def contains_iff split: option.splits)

lemma contains_fill_priors:
  "contains (fill_priors defs d) k \<longleftrightarrow> contains d k \<or> contains defs k"
  unfolding contains_iff map_of_fill_priors by (auto simp: map_add_def split: option.splits)

lemma msgs_distinct:
  "msg_diff_data_sim \<noteq> msg_num_days_sim"
  "msg_diff_data_sim \<noteq> msg_not_ordered"
  "msg_num_days_sim \<noteq> msg_not_ordered"
  "msg_not_known name \<noteq> msg_diff_data_sim"
  "msg_not_known name \<noteq> msg_num_days_sim"
  "msg_not_known name \<noteq> msg_not_ordered"
  "msg_diff_data_sim \<noteq> msg_not_known name"
  "msg_num_days_sim \<noteq> msg_not_known name"
  "msg_not_ordered \<noteq> msg_not_known name"
  by (simp_all add: msg_diff_data_sim_def msg_num_days_sim_def msg_not_ordered_def msg_not_known_def)

lemma default_priors_keys:
  "contains default_priors ''prior_beta_I_begin''"
  "contains default_priors (''prior_median_'' @ lam @ ''_0'')"
  "contains default_priors (''prior_sigma_'' @ lam @ ''_0'')"
  "contains default_priors (''prior_median_'' @ mu)"
  "contains default_priors (''prior_sigma_'' @ mu)"
  "contains default_priors ''prior_median_delay''"
  "contains default_priors ''prior_sigma_delay''"
  "contains default_priors (''prior_beta_'' @ sigma @ ''_obs'')"
  by (simp_all add: contains_def default_priors_def)

lemma default_priors_change_points_keys:
  "contains default_priors_change_points (''prior_median_'' @ lam)"
  "contains default_priors_change_points (''prior_sigma_'' @ lam)"
  "contains default_priors_change_points ''prior_sigma_date_begin_transient''"
  "contains default_priors_change_points ''prior_median_transient_len''"
  "contains default_priors_change_points ''prior_sigma_transient_len''"
  "contains default_priors_change_points ''prior_mean_date_begin_transient''"
  by (simp_all add: contains_def default_priors_change_points_def)

lemma default_priors_distinct: "distinct (map fst default_priors)"
  by (simp add: default_priors_def lam_def mu_def sigma_def)

lemma default_priors_change_points_distinct: "distinct (map fst default_priors_change_points)"
  by (simp add: default_priors_change_points_def lam_def)

lemma map_of_default_delay:
  "map_of default_priors ''prior_median_delay'' = Some 8"
  "map_of default_priors ''prior_sigma_delay'' = Some float_0_2"
  by (simp_all add: default_priors_def lam_def mu_def sigma_def)

lemma map_of_default_date:
  "map_of default_priors_change_points ''prior_mean_date_begin_transient'' = Some PyNone"
  by (simp add: default_priors_change_points_def lam_def)

section \<open>The loops of the model context\<close>

lemma np_log_Inl: "np_log v = Inl e \<Longrightarrow> e = TypeError"
  by (cases v) auto

lemma date_before_gt_Inl: "date_before_gt a b = Inl e \<Longrightarrow> e = TypeError"
  by (cases a; cases b) (auto split: if_splits)

lemma days_since_Inl: "days_since d v = Inl e \<Longrightarrow> e = TypeError"
  by (cases v) (auto split: if_splits)

lemma pm_call_Inl:
  "pm_call E name d m = Inl (e, m') \<Longrightarrow> (\<exists>c. e = PyMC3Error c) \<and> m' = m"
  by (auto simp: pm_call_def split: option.splits)

lemma pm_call_Inr:
  "pm_call E name d m = Inr (v, m') \<Longrightarrow> v = RV name \<and> m' = m @ [(name, d)]"
  by (auto simp: pm_call_def split: option.splits)

lemma pm_call_cases:
  obtains (refused) c where "pm_call E name d m = Inl (PyMC3Error c, m)"
  | (accepted) "pm_call E name d m = Inr (RV name, m @ [(name, d)])"
  by (cases "pm_raises E m name d") (auto simp: pm_call_def)

lemma declare_lam_list_error:
  "\<forall>cp\<in>set cps. contains cp (''prior_median_'' @ lam) \<and> contains cp (''prior_sigma_'' @ lam) \<Longrightarrow>
   declare_lam_list E i cps ll m = Inl (e, m') \<Longrightarrow> e = TypeError \<or> (\<exists>c. e = PyMC3Error c)"
proof (induction cps arbitrary: i ll m)
  case Nil
  then show ?case by simp
next
  case (Cons cp cps)
  from Cons.prems(1) obtain v s where
    v: "getitem cp (''prior_median_'' @ lam) = Inr v" and
    s: "getitem cp (''prior_sigma_'' @ lam) = Inr s"
    using getitem_contains [of cp "''prior_median_'' @ lam"]
      getitem_contains [of cp "''prior_sigma_'' @ lam"] by auto
  show ?case
  proof (cases "np_log v")
    case (Inl e')
    then show ?thesis using Cons.prems(2) v np_log_Inl [OF Inl] by simp
  next
    case (Inr lg)
    show ?thesis
    proof (cases rule: pm_call_cases [of E "lam @ ''_'' @ str_nat (i + 1)" "Lognormal lg (Val s)" m])
      case (refused c)
      then show ?thesis using Cons.prems(2) v s Inr by auto
    next
      case accepted
      then show ?thesis using Cons.prems v s Inr Cons.IH by simp
    qed
  qed
qed

lemma declare_lam_list_nonempty:
  "declare_lam_list E i cps ll m = Inl (e, m') \<Longrightarrow> m \<noteq> [] \<Longrightarrow> m' \<noteq> []"
  by (induction cps arbitrary: i ll m)
    (auto simp: pm_call_def split: sum.splits option.splits)

lemma declare_lam_list_names:
  "declare_lam_list E i cps ll m = Inr (ll', m') \<Longrightarrow>
   map fst m' = map fst m @ map (\<lambda>j. lam @ ''_'' @ str_nat (i + j + 1)) [0..<length cps] \<and>
   ll' = ll @ map (\<lambda>j. RV (lam @ ''_'' @ str_nat (i + j + 1))) [0..<length cps]"
proof (induction cps arbitrary: i ll m)
  case Nil
  then show ?case by simp
next
  case (Cons cp cps)
  from Cons.prems obtain lg sg where
    rec: "declare_lam_list E (Suc i) cps (ll @ [RV (lam @ ''_'' @ str_nat (Suc i))])
            (m @ [(lam @ ''_'' @ str_nat (Suc i), Lognormal lg (Val sg))]) = Inr (ll', m')"
    by (auto simp: pm_call_def split: sum.splits option.splits)
  show ?case using Cons.IH [OF rec] by (simp add: map_upt_Suc del: upt_Suc)
qed


lemma declare_transient_len_error:
  "\<forall>cp\<in>set cps. contains cp ''prior_median_transient_len''
       \<and> contains cp ''prior_sigma_transient_len'' \<Longrightarrow>
   declare_transient_len E i cps ll m = Inl (e, m') \<Longrightarrow>
   e = TypeError \<or> (\<exists>c. e = PyMC3Error c)"
proof (induction cps arbitrary: i ll m)
  case Nil
  then show ?case by simp
next
  case (Cons cp cps)
  from Cons.prems(1) obtain v s where
    v: "getitem cp ''prior_median_transient_len'' = Inr v" and
    s: "getitem cp ''prior_sigma_transient_len'' = Inr s"
    using getitem_contains [of cp "''prior_median_transient_len''"]
      getitem_contains [of cp "''prior_sigma_transient_len''"] by auto
  show ?case
  proof (cases "np_log v")
    case (Inl e')
    then show ?thesis using Cons.prems(2) v np_log_Inl [OF Inl] by simp
  next
    case (Inr lg)
    show ?thesis
    proof (cases rule: pm_call_cases [of E "''transient_len_'' @ str_nat i"
          "Lognormal lg (Val s)" m])
      case (refused c)
      then show ?thesis using Cons.prems(2) v s Inr by auto
    next
      case accepted
      then show ?thesis using Cons.prems v s Inr Cons.IH by simp
    qed
  qed
qed

lemma declare_transient_len_nonempty:
  "declare_transient_len E i cps ll m = Inl (e, m') \<Longrightarrow> m \<noteq> [] \<Longrightarrow> m' \<noteq> []"
  by (induction cps arbitrary: i ll m)
    (auto simp: pm_call_def split: sum.splits option.splits)

lemma declare_transient_len_names:
  "declare_transient_len E i cps ll m = Inr (ll', m') \<Longrightarrow>
   map fst m' = map fst m @ map (\<lambda>j. ''transient_len_'' @ str_nat (i + j)) [0..<length cps] \<and>
   ll' = ll @ map (\<lambda>j. RV (''transient_len_'' @ str_nat (i + j))) [0..<length cps]"
proof (induction cps arbitrary: i ll m)
  case Nil
  then show ?case by simp
next
  case (Cons cp cps)
  from Cons.prems obtain lg sg where
    rec: "declare_transient_len E (Suc i) cps (ll @ [RV (''transient_len_'' @ str_nat i)])
            (m @ [(''transient_len_'' @ str_nat i, Lognormal lg (Val sg))]) = Inr (ll', m')"
    by (auto simp: pm_call_def split: sum.splits option.splits)
  show ?case using Cons.IH [OF rec] by (simp add: map_upt_Suc del: upt_Suc)
qed


lemma declare_transient_begin_error:
  "\<forall>cp\<in>set cps. contains cp ''prior_mean_date_begin_transient''
       \<and> contains cp ''prior_sigma_date_begin_transient'' \<Longrightarrow>
   declare_transient_begin E dbs i db cps ll m = Inl (e, m') \<Longrightarrow>
   e = TypeError \<or> e = RuntimeError msg_not_ordered \<or> (\<exists>c. e = PyMC3Error c)"
proof (induction cps arbitrary: i db ll m)
  case Nil
  then show ?case by simp
next
  case (Cons cp cps)
  from Cons.prems(1) obtain v s where
    v: "getitem cp ''prior_mean_date_begin_transient'' = Inr v" and
    s: "getitem cp ''prior_sigma_date_begin_transient'' = Inr s"
    using getitem_contains [of cp "''prior_mean_date_begin_transient''"]
      getitem_contains [of cp "''prior_sigma_date_begin_transient''"] by auto
  show ?case
  proof (cases "date_before_gt db v")
    case (Inl e')
    then show ?thesis using Cons.prems(2) v date_before_gt_Inl [OF Inl] by simp
  next
    case (Inr b)
    show ?thesis
    proof (cases b)
      case True
      then show ?thesis using Cons.prems(2) v Inr by simp
    next
      case False
      show ?thesis
      proof (cases "days_since dbs v")
        case (Inl e')
        then show ?thesis
          using Cons.prems(2) v Inr False days_since_Inl [OF Inl] by simp
      next
        case dd: (Inr dd)
        show ?thesis
        proof (cases rule: pm_call_cases [of E "''transient_begin_'' @ str_nat i"
              "Normal (Num (real_of_int dd)) (Val s)" m])
          case (refused c)
          then show ?thesis using Cons.prems(2) v s Inr False dd by auto
        next
          case accepted
          then show ?thesis using Cons.prems v s Inr False dd Cons.IH by simp
        qed
      qed
    qed
  qed
qed

lemma declare_transient_begin_nonempty:
  "declare_transient_begin E dbs i db cps ll m = Inl (e, m') \<Longrightarrow> m \<noteq> [] \<Longrightarrow> m' \<noteq> []"
  by (induction cps arbitrary: i db ll m)
    (auto simp: pm_call_def split: sum.splits bool.splits option.splits)

lemma declare_transient_begin_names:
  "declare_transient_begin E dbs i db cps ll m = Inr (ll', m') \<Longrightarrow>
   map fst m' = map fst m @ map (\<lambda>j. ''transient_begin_'' @ str_nat (i + j)) [0..<length cps] \<and>
   ll' = ll @ map (\<lambda>j. RV (''transient_begin_'' @ str_nat (i + j))) [0..<length cps]"
proof (induction cps arbitrary: i db ll m)
  case Nil
  then show ?case by simp
next
  case (Cons cp cps)
  from Cons.prems obtain db' dd sg where
    rec: "declare_transient_begin E dbs (Suc i) db' cps
            (ll @ [RV (''transient_begin_'' @ str_nat i)])
            (m @ [(''transient_begin_'' @ str_nat i, Normal (Num (real_of_int dd)) (Val sg))])
          = Inr (ll', m')"
    by (auto simp: pm_call_def split: sum.splits bool.splits option.splits)
  show ?case using Cons.IH [OF rec] by (simp add: map_upt_Suc del: upt_Suc)
qed

lemma declare_transient_begin_None:
  "cp \<in> set cps \<Longrightarrow> map_of cp ''prior_mean_date_begin_transient'' = Some PyNone \<Longrightarrow>
   declare_transient_begin E dbs i db cps ll m \<noteq> Inr r"
proof (induction cps arbitrary: i db ll m)
  case Nil
  then show ?case by simp
next
  case (Cons c cps)
  show ?case
  proof (cases "c = cp")
    case True
    then have "getitem c ''prior_mean_date_begin_transient'' = Inr PyNone"
      using Cons.prems by (simp add: getitem_Inr_iff)
    then show ?thesis by (cases db) auto
  next
    case False
    then have "cp \<in> set cps" using Cons.prems by simp
    then show ?thesis using Cons.IH Cons.prems(2)
      by (auto split: sum.splits bool.splits)
  qed
qed




section \<open>The model context as a whole\<close>

lemma declare_I_begin_Inr:
  "declare_I_begin E P m = Inr (x, m') \<Longrightarrow>
   x = RV ''I_begin'' \<and> map fst m' = map fst m @ [''I_begin''] \<and> m' \<noteq> []"
  by (auto simp: declare_I_begin_def pm_call_def split: sum.splits option.splits)

lemma declare_I_begin_Inl:
  "contains P ''prior_beta_I_begin'' \<Longrightarrow> declare_I_begin E P m = Inl (e, m') \<Longrightarrow>
   \<exists>c. e = PyMC3Error c"
  using getitem_contains [of P "''prior_beta_I_begin''"]
  by (auto simp: declare_I_begin_def pm_call_def split: option.splits)

lemma declare_lam_0_Inr:
  "declare_lam_0 E P m = Inr (x, m') \<Longrightarrow>
   x = RV (lam @ ''_0'') \<and> map fst m' = map fst m @ [lam @ ''_0''] \<and> m' \<noteq> []"
  by (auto simp: declare_lam_0_def pm_call_def split: sum.splits option.splits)

lemma declare_lam_0_Inl:
  "contains P (''prior_median_'' @ lam @ ''_0'') \<Longrightarrow> contains P (''prior_sigma_'' @ lam @ ''_0'') \<Longrightarrow>
   declare_lam_0 E P m = Inl (e, m') \<Longrightarrow> \<exists>c. e = PyMC3Error c"
  using getitem_contains [of P "''prior_median_'' @ lam @ ''_0''"]
    getitem_contains [of P "''prior_sigma_'' @ lam @ ''_0''"]
  by (auto simp: declare_lam_0_def pm_call_def split: option.splits)

lemma declare_observation_Inr:
  "declare_observation E obs n d P (RV ''I_begin'') lt m = Inr (u, m') \<Longrightarrow>
   \<exists>a b c e f. m' = m @
     [(mu, Lognormal (Log (Num a)) (Num b)),
      (''delay'', Lognormal (Log (Num c)) (Num e)),
      (sigma @ ''_obs'', HalfCauchy (Num f)),
      (''obs'', StudentT (Num 4) (Slice (inferred lt n d) (length obs))
         (Mul (Power (Abs (Add (Slice (inferred lt n d) (length obs)) (Num 1))) (Num 0.5))
              (RV (sigma @ ''_obs''))) obs),
      (lam @ ''_t'', Deterministic lt),
      (''new_cases'', Deterministic (inferred lt n d))]"
  by (auto simp: declare_observation_def inferred_def Let_def pm_call_def
      split: sum.splits option.splits)

lemma declare_observation_Inl:
  assumes "contains P (''prior_median_'' @ mu)" "contains P (''prior_sigma_'' @ mu)"
    "contains P ''prior_median_delay''" "contains P ''prior_sigma_delay''"
    "contains P (''prior_beta_'' @ sigma @ ''_obs'')"
    and err: "declare_observation E obs n d P I lt m = Inl (e, m')"
  shows "\<exists>c. e = PyMC3Error c"
proof -
  from assms(1-5) obtain a b c f g where
    g: "getitem P (''prior_median_'' @ mu) = Inr a" "getitem P (''prior_sigma_'' @ mu) = Inr b"
    "getitem P ''prior_median_delay'' = Inr c" "getitem P ''prior_sigma_delay'' = Inr f"
    "getitem P (''prior_beta_'' @ sigma @ ''_obs'') = Inr g"
    using getitem_contains [of P "''prior_median_'' @ mu"]
      getitem_contains [of P "''prior_sigma_'' @ mu"]
      getitem_contains [of P "''prior_median_delay''"]
      getitem_contains [of P "''prior_sigma_delay''"]
      getitem_contains [of P "''prior_beta_'' @ sigma @ ''_obs''"]
    by blast
  show ?thesis
    using err g
    by (auto simp: declare_observation_def Let_def pm_call_def
        split: sum.splits option.splits)
qed

lemma model_context_Inr:
  "model_context E obs cps dbs n d P = Inr (u, m) \<Longrightarrow>
   \<exists>m1 m2 ll m3 tb m4 tl m5 lt.
     declare_I_begin E P [] = Inr (RV ''I_begin'', m1) \<and>
     declare_lam_0 E P m1 = Inr (RV (lam @ ''_0''), m2) \<and>
     declare_lam_list E 0 cps [RV (lam @ ''_0'')] m2 = Inr (ll, m3) \<and>
     declare_transient_begin E dbs 0 PyNone cps [] m3 = Inr (tb, m4) \<and>
     declare_transient_len E 0 cps [] m4 = Inr (tl, m5) \<and>
     build_lam_t ll tb tl n = Inr lt \<and>
     declare_observation E obs n d P (RV ''I_begin'') lt m5 = Inr (u, m)"
proof -
  assume mc: "model_context E obs cps dbs n d P = Inr (u, m)"
  then obtain I m1 where a: "declare_I_begin E P [] = Inr (I, m1)"
    by (cases "declare_I_begin E P []") (auto simp: model_context_def)
  from declare_I_begin_Inr [OF a] have I: "I = RV ''I_begin''" by simp
  from mc a obtain l0 m2 where b: "declare_lam_0 E P m1 = Inr (l0, m2)"
    by (cases "declare_lam_0 E P m1") (auto simp: model_context_def)
  from declare_lam_0_Inr [OF b] have l0: "l0 = RV (lam @ ''_0'')" by simp
  show ?thesis
    using mc a b unfolding I l0
    by (auto simp: model_context_def split: sum.splits prod.splits)
qed

lemma model_context_names:
  assumes "model_context E obs cps dbs n d P = Inr (u, m)"
  shows "map fst m = variable_names (length cps)"
proof -
  from model_context_Inr [OF assms] obtain m1 m2 ll m3 tb m4 tl m5 lt where
    a: "declare_I_begin E P [] = Inr (RV ''I_begin'', m1)" and
    b: "declare_lam_0 E P m1 = Inr (RV (lam @ ''_0''), m2)" and
    c: "declare_lam_list E 0 cps [RV (lam @ ''_0'')] m2 = Inr (ll, m3)" and
    e: "declare_transient_begin E dbs 0 PyNone cps [] m3 = Inr (tb, m4)" and
    f: "declare_transient_len E 0 cps [] m4 = Inr (tl, m5)" and
    g: "declare_observation E obs n d P (RV ''I_begin'') lt m5 = Inr (u, m)"
    by blast
  from declare_observation_Inr [OF g] have
    "map fst m = map fst m5 @ [mu, ''delay'', sigma @ ''_obs'', ''obs'', lam @ ''_t'', ''new_cases'']"
    by auto
  then show ?thesis
    using declare_I_begin_Inr [OF a] declare_lam_0_Inr [OF b] declare_lam_list_names [OF c]
      declare_transient_begin_names [OF e] declare_transient_len_names [OF f]
    by (simp add: variable_names_def)
qed

text \<open>The end of a model that is returned, and the rate it is built on.\<close>

lemma model_context_end:
  assumes "model_context E obs cps dbs n d P = Inr (u, m)"
  shows "\<exists>m0 lt.
     build_lam_t (lam_vars (length cps)) (transient_begin_vars (length cps))
       (transient_len_vars (length cps)) n = Inr lt \<and>
     m = m0 @
       [(''obs'', StudentT (Num 4) (Slice (inferred lt n d) (length obs))
         (Mul (Power (Abs (Add (Slice (inferred lt n d) (length obs)) (Num 1))) (Num 0.5))
              (RV (sigma @ ''_obs''))) obs),
        (lam @ ''_t'', Deterministic lt),
        (''new_cases'', Deterministic (inferred lt n d))]"
proof -
  from model_context_Inr [OF assms] obtain m1 m2 ll m3 tb m4 tl m5 lt where
    c: "declare_lam_list E 0 cps [RV (lam @ ''_0'')] m2 = Inr (ll, m3)" and
    e: "declare_transient_begin E dbs 0 PyNone cps [] m3 = Inr (tb, m4)" and
    f: "declare_transient_len E 0 cps [] m4 = Inr (tl, m5)" and
    lt: "build_lam_t ll tb tl n = Inr lt" and
    g: "declare_observation E obs n d P (RV ''I_begin'') lt m5 = Inr (u, m)"
    by blast
  have ll: "ll = lam_vars (length cps)"
    using declare_lam_list_names [OF c] by (simp add: lam_vars_def)
  have tb: "tb = transient_begin_vars (length cps)"
    using declare_transient_begin_names [OF e] by (simp add: transient_begin_vars_def)
  have tl: "tl = transient_len_vars (length cps)"
    using declare_transient_len_names [OF f] by (simp add: transient_len_vars_def)
  from declare_observation_Inr [OF g] obtain a b c e f where
    "m = (m5 @ [(mu, Lognormal (Log (Num a)) (Num b)),
      (''delay'', Lognormal (Log (Num c)) (Num e)),
      (sigma @ ''_obs'', HalfCauchy (Num f))]) @
     [(''obs'', StudentT (Num 4) (Slice (inferred lt n d) (length obs))
         (Mul (Power (Abs (Add (Slice (inferred lt n d) (length obs)) (Num 1))) (Num 0.5))
              (RV (sigma @ ''_obs''))) obs),
      (lam @ ''_t'', Deterministic lt),
      (''new_cases'', Deterministic (inferred lt n d))]"
    by auto
  then show ?thesis using lt [unfolded ll tb tl] by blast
qed

text \<open>
  On filled priors the first two calls end in the library or succeed; the rest of the
  context starts from a model that is not empty.
\<close>

lemma model_context_split:
  assumes P: "\<forall>k. contains default_priors k \<longrightarrow> contains P k"
  obtains (early) c m where "model_context E obs cps dbs n d P = Inl (PyMC3Error c, m)"
  | (late) m2 where "m2 \<noteq> []" and "model_context E obs cps dbs n d P =
     (case declare_lam_list E 0 cps [RV (lam @ ''_0'')] m2 of
        Inl x \<Rightarrow> Inl x
      | Inr (lam_list, m3) \<Rightarrow>
     (case declare_transient_begin E dbs 0 PyNone cps [] m3 of
        Inl x \<Rightarrow> Inl x
      | Inr (transient_begin_list, m4) \<Rightarrow>
     (case declare_transient_len E 0 cps [] m4 of
        Inl x \<Rightarrow> Inl x
      | Inr (transient_len_list, m5) \<Rightarrow>
     (case build_lam_t lam_list transient_begin_list transient_len_list n of
        Inl e \<Rightarrow> Inl (e, m5)
      | Inr lam_t \<Rightarrow>
          declare_observation E obs n d P (RV ''I_begin'') lam_t m5))))"
proof (cases "declare_I_begin E P []")
  case (Inl x)
  obtain e m where x: "x = (e, m)" by (cases x)
  from declare_I_begin_Inl [OF _ Inl [unfolded x]] P default_priors_keys
  obtain c where "e = PyMC3Error c" by blast
  then have "model_context E obs cps dbs n d P = Inl (PyMC3Error c, m)"
    using Inl x by (simp add: model_context_def)
  then show ?thesis by (rule early)
next
  case (Inr r)
  obtain I m1 where r: "r = (I, m1)" by (cases r)
  from declare_I_begin_Inr [OF Inr [unfolded r]] have I: "I = RV ''I_begin''" by simp
  show ?thesis
  proof (cases "declare_lam_0 E P m1")
    case (Inl x)
    obtain e m where x: "x = (e, m)" by (cases x)
    from declare_lam_0_Inl [OF _ _ Inl [unfolded x]] P default_priors_keys
    obtain c where "e = PyMC3Error c" by blast
    then have "model_context E obs cps dbs n d P = Inl (PyMC3Error c, m)"
      using Inl x \<open>declare_I_begin E P [] = Inr r\<close> r by (simp add: model_context_def)
    then show ?thesis by (rule early)
  next
    case (Inr r2)
    obtain l0 m2 where r2: "r2 = (l0, m2)" by (cases r2)
    from declare_lam_0_Inr [OF Inr [unfolded r2]]
    have l0: "l0 = RV (lam @ ''_0'')" and m2: "m2 \<noteq> []" by simp_all
    have "model_context E obs cps dbs n d P =
     (case declare_lam_list E 0 cps [RV (lam @ ''_0'')] m2 of
        Inl x \<Rightarrow> Inl x
      | Inr (lam_list, m3) \<Rightarrow>
     (case declare_transient_begin E dbs 0 PyNone cps [] m3 of
        Inl x \<Rightarrow> Inl x
      | Inr (transient_begin_list, m4) \<Rightarrow>
     (case declare_transient_len E 0 cps [] m4 of
        Inl x \<Rightarrow> Inl x
      | Inr (transient_len_list, m5) \<Rightarrow>
     (case build_lam_t lam_list transient_begin_list transient_len_list n of
        Inl e \<Rightarrow> Inl (e, m5)
      | Inr lam_t \<Rightarrow>
          declare_observation E obs n d P (RV ''I_begin'') lam_t m5))))"
      using \<open>declare_I_begin E P [] = Inr r\<close> r I Inr r2 l0 by (simp add: model_context_def)
    with m2 show ?thesis by (rule late)
  qed
qed

lemma model_context_error:
  assumes P: "\<forall>k. contains default_priors k \<longrightarrow> contains P k"
    and C: "\<forall>cp\<in>set cps. \<forall>k. contains default_priors_change_points k \<longrightarrow> contains cp k"
    and err: "model_context E obs cps dbs n d P = Inl (e, m)"
  shows "(e = TypeError \<or> e = RuntimeError msg_not_ordered \<or> (\<exists>c. e = PyMC3Error c)) \<and>
         (e = TypeError \<or> e = RuntimeError msg_not_ordered \<longrightarrow> m \<noteq> [])"
proof (cases rule: model_context_split [OF P, of E obs cps dbs n d, case_names early late])
  case (early c m')
  then show ?thesis using err by auto
next
  case (late m2)
  note unfold = late(2)
  have m2: "m2 \<noteq> []" by (rule late(1))
  have C1: "\<forall>cp\<in>set cps. contains cp (''prior_median_'' @ lam) \<and> contains cp (''prior_sigma_'' @ lam)"
    using C default_priors_change_points_keys by blast
  have C2: "\<forall>cp\<in>set cps. contains cp ''prior_mean_date_begin_transient''
       \<and> contains cp ''prior_sigma_date_begin_transient''"
    using C default_priors_change_points_keys by blast
  have C3: "\<forall>cp\<in>set cps. contains cp ''prior_median_transient_len''
       \<and> contains cp ''prior_sigma_transient_len''"
    using C default_priors_change_points_keys by blast
  show ?thesis
  proof (cases "declare_lam_list E 0 cps [RV (lam @ ''_0'')] m2")
    case (Inl x)
    then have "x = (e, m)" using err unfold by simp
    then show ?thesis
      using declare_lam_list_error [OF C1, of E 0 _ m2 e m]
        declare_lam_list_nonempty [of E 0 cps _ m2 e m] Inl m2 by auto
  next
    case (Inr r)
    obtain ll m3 where r: "r = (ll, m3)" by (cases r)
    from declare_lam_list_names [OF Inr [unfolded r]] m2
    have m3: "m3 \<noteq> []" and ll: "ll \<noteq> []" by auto
    show ?thesis
    proof (cases "declare_transient_begin E dbs 0 PyNone cps [] m3")
      case (Inl x)
      then have "x = (e, m)" using err unfold Inr r by simp
      then show ?thesis
        using declare_transient_begin_error [OF C2, of E dbs 0 PyNone _ m3 e m]
          declare_transient_begin_nonempty [of E dbs 0 PyNone cps _ m3 e m] Inl m3 by auto
    next
      case (Inr r2)
      obtain tb m4 where r2: "r2 = (tb, m4)" by (cases r2)
      from declare_transient_begin_names [OF Inr [unfolded r2]] m3
      have m4: "m4 \<noteq> []" by auto
      show ?thesis
      proof (cases "declare_transient_len E 0 cps [] m4")
        case (Inl x)
        then have "x = (e, m)"
          using err unfold \<open>declare_lam_list E 0 cps [RV (lam @ ''_0'')] m2 = Inr r\<close> r Inr r2
          by simp
        then show ?thesis
          using declare_transient_len_error [OF C3, of E 0 _ m4 e m]
            declare_transient_len_nonempty [of E 0 cps _ m4 e m] Inl m4 by auto
      next
        case (Inr r3)
        obtain tl m5 where r3: "r3 = (tl, m5)" by (cases r3)
        obtain l0 lrest where "ll = l0 # lrest" using ll by (cases ll) auto
        then obtain lt where lt: "build_lam_t ll tb tl n = Inr lt"
          by (simp add: build_lam_t_def)
        have "declare_observation E obs n d P (RV ''I_begin'') lt m5 = Inl (e, m)"
          using err unfold \<open>declare_lam_list E 0 cps [RV (lam @ ''_0'')] m2 = Inr r\<close> r
            \<open>declare_transient_begin E dbs 0 PyNone cps [] m3 = Inr r2\<close> r2 Inr r3 lt
          by simp
        from declare_observation_Inl [OF _ _ _ _ _ this] P default_priors_keys
        show ?thesis by auto
      qed
    qed
  qed
qed

lemma model_context_None_date:
  "cp \<in> set cps \<Longrightarrow> map_of cp ''prior_mean_date_begin_transient'' = Some PyNone \<Longrightarrow>
   model_context E obs cps dbs n d P \<noteq> Inr r"
proof
  assume cp: "cp \<in> set cps" "map_of cp ''prior_mean_date_begin_transient'' = Some PyNone"
    and "model_context E obs cps dbs n d P = Inr r"
  then obtain u m where "model_context E obs cps dbs n d P = Inr (u, m)" by (cases r) auto
  from model_context_Inr [OF this] obtain m3 tb m4 where
    "declare_transient_begin E dbs 0 PyNone cps [] m3 = Inr (tb, m4)" by blast
  then show False using declare_transient_begin_None [OF cp] by blast
qed

lemma declare_transient_begin_head_None:
  "map_of cp ''prior_mean_date_begin_transient'' = Some PyNone \<Longrightarrow>
   declare_transient_begin E dbs i PyNone (cp # cps) ll m = Inl (TypeError, m)"
  by (simp add: getitem_def)



lemma model_context_head_None:
  assumes P: "\<forall>k. contains default_priors k \<longrightarrow> contains P k"
    and C: "\<forall>cp\<in>set (c # cps). \<forall>k. contains default_priors_change_points k \<longrightarrow> contains cp k"
    and none: "map_of c ''prior_mean_date_begin_transient'' = Some PyNone"
  shows "\<exists>e m. model_context E obs (c # cps) dbs n d P = Inl (e, m) \<and>
           (e = TypeError \<or> (\<exists>c. e = PyMC3Error c))"
proof (cases rule: model_context_split [OF P, of E obs "c # cps" dbs n d, case_names early late])
  case (early c' m')
  then show ?thesis by auto
next
  case (late m2)
  note unfold = late(2)
  have C1: "\<forall>cp\<in>set (c # cps). contains cp (''prior_median_'' @ lam) \<and> contains cp (''prior_sigma_'' @ lam)"
    using C default_priors_change_points_keys by blast
  show ?thesis
  proof (cases "declare_lam_list E 0 (c # cps) [RV (lam @ ''_0'')] m2")
    case (Inl x)
    obtain e m where x: "x = (e, m)" by (cases x)
    from declare_lam_list_error [OF C1 Inl [unfolded x]]
    show ?thesis using unfold Inl x by auto
  next
    case (Inr r)
    obtain ll m3 where r: "r = (ll, m3)" by (cases r)
    show ?thesis
      using unfold Inr r declare_transient_begin_head_None [OF none, of E dbs 0 cps "[]" m3]
      by simp
  qed
qed

section \<open>The names of the variables\<close>

lemma digit_inj:
  "i < 10 \<Longrightarrow> j < 10 \<Longrightarrow> ''0123456789'' ! i = ''0123456789'' ! j \<Longrightarrow> i = j"
proof -
  assume i: "i < 10" and j: "j < 10" and eq: "''0123456789'' ! i = ''0123456789'' ! j"
  have d: "distinct ''0123456789''" by simp
  have "i < length ''0123456789''" "j < length ''0123456789''" using i j by simp_all
  then show ?thesis using eq nth_eq_iff_index_eq [OF d] by blast
qed

lemma str_nat_nonempty: "str_nat n \<noteq> []"
  by (subst str_nat.simps) simp

lemma str_nat_digits: "set (str_nat n) \<subseteq> set ''0123456789''"
proof (induction n rule: str_nat.induct)
  case (1 n)
  show ?case
  proof (cases "n < 10")
    case True
    then have "n < length ''0123456789''" by simp
    from nth_mem [OF this] have "''0123456789'' ! n \<in> set ''0123456789''" .
    moreover have "str_nat n = [''0123456789'' ! n]" using True by (subst str_nat.simps) simp
    ultimately show ?thesis by simp
  next
    case False
    have "n mod 10 < length ''0123456789''" by simp
    from nth_mem [OF this] have m: "''0123456789'' ! (n mod 10) \<in> set ''0123456789''" .
    have "str_nat n = str_nat (n div 10) @ [''0123456789'' ! (n mod 10)]"
      using False by (subst str_nat.simps) simp
    then show ?thesis using "1.IH" [OF False] m by simp
  qed
qed

lemma str_nat_inj: "str_nat n = str_nat m \<Longrightarrow> n = m"
proof (induction n arbitrary: m rule: str_nat.induct)
  case (1 n)
  have sn: "str_nat n = (if n < 10 then [''0123456789'' ! n]
                else str_nat (n div 10) @ [''0123456789'' ! (n mod 10)])"
    by (subst str_nat.simps) simp
  have sm: "str_nat m = (if m < 10 then [''0123456789'' ! m]
                else str_nat (m div 10) @ [''0123456789'' ! (m mod 10)])"
    by (subst str_nat.simps) simp
  show ?case
  proof (cases "n < 10")
    case True
    show ?thesis
    proof (cases "m < 10")
      case mT: True
      from "1.prems" True mT sn sm have "''0123456789'' ! n = ''0123456789'' ! m" by simp
      then show ?thesis using digit_inj True mT by blast
    next
      case mF: False
      from "1.prems" True mF sn sm have
        "length [''0123456789'' ! n] = length (str_nat (m div 10) @ [''0123456789'' ! (m mod 10)])"
        by simp
      then have "str_nat (m div 10) = []" by simp
      then show ?thesis using str_nat_nonempty by blast
    qed
  next
    case False
    show ?thesis
    proof (cases "m < 10")
      case mT: True
      from "1.prems" False mT sn sm have
        "length (str_nat (n div 10) @ [''0123456789'' ! (n mod 10)]) = length [''0123456789'' ! m]"
        by simp
      then have "str_nat (n div 10) = []" by simp
      then show ?thesis using str_nat_nonempty by blast
    next
      case mF: False
      from "1.prems" False mF sn sm have
        "str_nat (n div 10) @ [''0123456789'' ! (n mod 10)]
         = str_nat (m div 10) @ [''0123456789'' ! (m mod 10)]" by simp
      then have a: "str_nat (n div 10) = str_nat (m div 10)"
        and b: "''0123456789'' ! (n mod 10) = ''0123456789'' ! (m mod 10)" by simp_all
      from "1.IH" [OF False a] have q: "n div 10 = m div 10" .
      have "n mod 10 < 10" "m mod 10 < 10" by simp_all
      from digit_inj [OF this b] have r: "n mod 10 = m mod 10" .
      show ?thesis using q r by (metis div_mult_mod_eq)
    qed
  qed
qed

lemma str_nat_0: "str_nat 0 = ''0''"
  by (subst str_nat.simps) simp

lemma str_nat_Suc_not_0: "str_nat (Suc i) \<noteq> ''0''"
proof
  assume "str_nat (Suc i) = ''0''"
  then have "str_nat (Suc i) = str_nat 0" by (simp add: str_nat_0)
  from str_nat_inj [OF this] show False by simp
qed

lemma str_nat_not_t: "str_nat i \<noteq> ''t''"
  using str_nat_digits [of i] by auto

lemma distinct_variable_names: "distinct (variable_names n)"
proof -
  have i1: "inj_on (\<lambda>i. lam @ ''_'' @ str_nat (i + 1)) (set [0..<n])"
    by (auto simp: inj_on_def dest: str_nat_inj)
  have i2: "inj_on (\<lambda>i. ''transient_begin_'' @ str_nat i) (set [0..<n])"
    by (auto simp: inj_on_def dest: str_nat_inj)
  have i3: "inj_on (\<lambda>i. ''transient_len_'' @ str_nat i) (set [0..<n])"
    by (auto simp: inj_on_def dest: str_nat_inj)
  show ?thesis
    unfolding variable_names_def
    using i1 i2 i3
    by (auto simp: distinct_map lam_def mu_def sigma_def str_nat_Suc_not_0 str_nat_not_t
        str_nat_Suc_not_0 [THEN not_sym] str_nat_not_t [THEN not_sym])
qed

section \<open>The entry point on recognised names\<close>

lemma run_valid:
  assumes v1: "keys pd \<subseteq> keys default_priors"
    and v2: "\<forall>cp\<in>set cps. keys cp \<subseteq> keys default_priors_change_points"
    and pd: "pd = (case parg of None \<Rightarrow> [] | Some d \<Rightarrow> d)"
  shows "SIR_model_with_change_points E obs cps dbs n d parg =
     (case check_horizon (float_round E) (fill_priors default_priors pd) (length obs) n d of
        Some e \<Rightarrow>
          \<lparr>raised = Some e, model = [], priors_dic_final = fill_priors default_priors pd,
           change_points_final = map (fill_priors default_priors_change_points) cps\<rparr>
      | None \<Rightarrow>
     (case model_context E obs (map (fill_priors default_priors_change_points) cps) dbs n d
             (fill_priors default_priors pd) of
        Inl (e, m) \<Rightarrow>
          \<lparr>raised = Some e, model = m, priors_dic_final = fill_priors default_priors pd,
           change_points_final = map (fill_priors default_priors_change_points) cps\<rparr>
      | Inr (u, m) \<Rightarrow>
          \<lparr>raised = None, model = m, priors_dic_final = fill_priors default_priors pd,
           change_points_final = map (fill_priors default_priors_change_points) cps\<rparr>))"
proof -
  have a: "check_prior_names default_priors (case parg of None \<Rightarrow> [] | Some d \<Rightarrow> d) = None"
    using v1 pd by (simp add: check_prior_names_None_iff keys_def)
  have b: "check_change_point_names default_priors_change_points cps = None"
    using v2 by (simp add: check_change_point_names_None_iff keys_def)
  show ?thesis
    unfolding SIR_model_with_change_points_def pd
    by (simp add: a b Let_def fill_change_points_map)
qed

lemma map_of_append_default:
  "map_of defs k = Some v \<Longrightarrow> \<exists>w. map_of (pd @ defs) k = Some w"
  by (cases "map_of pd k") (simp_all add: map_add_def)

lemma delay_priors_exist:
  "\<exists>md sd. map_of (pd @ default_priors) ''prior_median_delay'' = Some md \<and>
           map_of (pd @ default_priors) ''prior_sigma_delay'' = Some sd"
  using map_of_append_default [OF map_of_default_delay(1), of pd]
    map_of_append_default [OF map_of_default_delay(2), of pd] by blast

lemma check_horizon_filled:
  assumes "map_of (pd @ default_priors) ''prior_median_delay'' = Some md"
    and "map_of (pd @ default_priors) ''prior_sigma_delay'' = Some sd"
  shows "check_horizon fl (fill_priors default_priors pd) len n d =
     (if real_of_int d < fl (md + fl (fl (3 * md) * sd))
      then Some (RuntimeError msg_diff_data_sim)
      else if n < int len + d then Some (RuntimeError msg_num_days_sim) else None)"
  using assms by (simp add: check_horizon_def getitem_def map_of_fill_priors)

lemma filled_priors: "\<forall>k. contains default_priors k \<longrightarrow> contains (fill_priors default_priors pd) k"
  by (simp add: contains_fill_priors)

lemma filled_change_points:
  "\<forall>cp\<in>set (map (fill_priors default_priors_change_points) cps).
     \<forall>k. contains default_priors_change_points k \<longrightarrow> contains cp k"
  by (auto simp: contains_fill_priors)

text \<open>Everything a run with recognised names can end with.\<close>

lemma run_valid_cases:
  assumes v1: "keys pd \<subseteq> keys default_priors"
    and v2: "\<forall>cp\<in>set cps. keys cp \<subseteq> keys default_priors_change_points"
    and pd: "pd = (case parg of None \<Rightarrow> [] | Some d \<Rightarrow> d)"
    and md: "map_of (pd @ default_priors) ''prior_median_delay'' = Some md"
    and sd: "map_of (pd @ default_priors) ''prior_sigma_delay'' = Some sd"
    and R: "R = SIR_model_with_change_points E obs cps dbs n d parg"
    and P: "P = fill_priors default_priors pd"
    and C: "C = map (fill_priors default_priors_change_points) cps"
  shows "priors_dic_final R = P \<and> change_points_final R = C \<and>
     (if real_of_int d < float_round E (md + float_round E (float_round E (3 * md) * sd))
      then raised R = Some (RuntimeError msg_diff_data_sim) \<and> model R = []
      else if n < int (length obs) + d
      then raised R = Some (RuntimeError msg_num_days_sim) \<and> model R = []
      else (case model_context E obs C dbs n d P of
              Inl (e, m) \<Rightarrow> raised R = Some e \<and> model R = m \<and>
                 (e = TypeError \<or> e = RuntimeError msg_not_ordered \<or> (\<exists>c. e = PyMC3Error c)) \<and>
                 (e = TypeError \<or> e = RuntimeError msg_not_ordered \<longrightarrow> m \<noteq> [])
            | Inr (u, m) \<Rightarrow> raised R = None \<and> model R = m))"
proof -
  note rv = run_valid [OF v1 v2 pd, of E obs dbs n d, folded R P C]
  note ch = check_horizon_filled [OF md sd, of "float_round E" "length obs" n d, folded P]
  show ?thesis
  proof (cases "model_context E obs C dbs n d P")
    case (Inl x)
    obtain e m where x: "x = (e, m)" by (cases x)
    from model_context_error [OF filled_priors filled_change_points, of E obs cps dbs n d pd e m]
      Inl x
    have "(e = TypeError \<or> e = RuntimeError msg_not_ordered \<or> (\<exists>c. e = PyMC3Error c)) \<and>
          (e = TypeError \<or> e = RuntimeError msg_not_ordered \<longrightarrow> m \<noteq> [])"
      by (simp add: P C)
    then show ?thesis using rv ch Inl x by auto
  next
    case (Inr x)
    obtain u m where x: "x = (u, m)" by (cases x)
    show ?thesis using rv ch Inr x by auto
  qed
qed

lemmas run_simps =
  SIR_model_with_change_points_def Let_def check_horizon_def model_context_def
  declare_I_begin_def declare_lam_0_def declare_observation_def getitem_def contains_def
  set_default_def default_priors_def default_priors_change_points_def build_lam_t_def
  py_sum_def lam_def mu_def sigma_def str_nat.simps change_point_on_def keys_def
  pm_call_def example_environment_def example_pm_def day_def float_0_2_def float_0_3_def
  float_0_4_def

lemma run_invalid_priors:
  "check_prior_names default_priors (case parg of None \<Rightarrow> [] | Some d \<Rightarrow> d) = Some e \<Longrightarrow>
   SIR_model_with_change_points E obs cps dbs n d parg =
     \<lparr>raised = Some e, model = [],
      priors_dic_final = (case parg of None \<Rightarrow> [] | Some d \<Rightarrow> d),
      change_points_final = cps\<rparr>"
  by (simp add: SIR_model_with_change_points_def Let_def)

lemma run_invalid_change_point:
  "check_prior_names default_priors (case parg of None \<Rightarrow> [] | Some d \<Rightarrow> d) = None \<Longrightarrow>
   check_change_point_names default_priors_change_points cps = Some e \<Longrightarrow>
   SIR_model_with_change_points E obs cps dbs n d parg =
     \<lparr>raised = Some e, model = [],
      priors_dic_final = fill_priors default_priors (case parg of None \<Rightarrow> [] | Some d \<Rightarrow> d),
      change_points_final = cps\<rparr>"
  by (simp add: SIR_model_with_change_points_def Let_def)

lemma run_valid_raised:
  assumes v1: "keys pd \<subseteq> keys default_priors"
    and v2: "\<forall>cp\<in>set cps. keys cp \<subseteq> keys default_priors_change_points"
    and pd: "pd = (case parg of None \<Rightarrow> [] | Some d \<Rightarrow> d)"
    and R: "R = SIR_model_with_change_points E obs cps dbs n d parg"
  shows "raised R = None \<or> raised R = Some (RuntimeError msg_diff_data_sim) \<or>
         raised R = Some (RuntimeError msg_num_days_sim) \<or> raised R = Some TypeError \<or>
         raised R = Some (RuntimeError msg_not_ordered) \<or>
         (\<exists>c. raised R = Some (PyMC3Error c))"
proof -
  from delay_priors_exist [of pd] obtain md sd where
    md: "map_of (pd @ default_priors) ''prior_median_delay'' = Some md" and
    sd: "map_of (pd @ default_priors) ''prior_sigma_delay'' = Some sd" by blast
  from run_valid_cases [OF v1 v2 pd md sd R refl refl]
  show ?thesis by (auto split: if_splits sum.splits prod.splits)
qed

lemma run_success:
  "raised (SIR_model_with_change_points E obs cps dbs n d parg) = None \<Longrightarrow>
   \<exists>u. model_context E obs (map (fill_priors default_priors_change_points) cps) dbs n d
          (fill_priors default_priors (case parg of None \<Rightarrow> [] | Some d \<Rightarrow> d))
        = Inr (u, model (SIR_model_with_change_points E obs cps dbs n d parg))"
  by (auto simp: SIR_model_with_change_points_def Let_def fill_change_points_map
      split: option.splits sum.splits prod.splits)

lemma map_of_append_case:
  "map_of (d @ defs) k = (case map_of d k of Some v \<Rightarrow> Some v | None \<Rightarrow> map_of defs k)"
  by (simp add: map_add_def split: option.splits)




lemma eval_obs_scale:
  assumes "eval H s nci = Some (Vec xs)"
  shows "eval H s (Slice nci k) = Some (Vec (take k xs))"
    and "eval H s (Mul (Power (Abs (Add (Slice nci k) (Num 1))) (Num 0.5)) (RV name)) =
         Some (Vec (map (\<lambda>e. sqrt \<bar>e + 1\<bar> * s name) (take k xs)))"
  using assms by (simp_all add: powr_half_sqrt o_def)

lemma claimed_scale_eq:
  assumes "\<forall>e\<in>set es. - 1 \<le> e"
  shows "claimed_scale es sg = map (\<lambda>e. sqrt \<bar>e + 1\<bar> * sg) es"
proof -
  have "sqrt (e + 1) = sqrt \<bar>e + 1\<bar>" if "e \<in> set es" for e
  proof -
    from that assms have "- 1 \<le> e" by blast
    then show ?thesis by simp
  qed
  then show ?thesis by (simp add: claimed_scale_def)
qed

lemma lam_t_loop_map:
  "lam_t_loop n lam_0 zs acc = acc @
     map (\<lambda>(tb, tl, l). Mul (SmoothStep (Num 0) (Num 1) tb (Add tb tl) n) (Sub l lam_0)) zs"
  by (induction zs arbitrary: acc) auto

section \<open>Rounding and the lead time\<close>

lemma rounding_exact: "rounding (\<lambda>x. x)"
  by (simp add: rounding_def)

text \<open>
  With the default delay prior the threshold of line 68 lies between 12 and 13, whatever
  the rounding.
\<close>

lemma default_threshold:
  assumes "rounding fl"
  shows "12 \<le> fl (8 + fl (fl (3 * 8) * float_0_2))"
    and "fl (8 + fl (fl (3 * 8) * float_0_2)) \<le> 13"
proof -
  from assms have mono: "\<And>x y. x \<le> y \<Longrightarrow> fl x \<le> fl y"
    and exact: "\<And>k :: int. \<bar>k\<bar> \<le> 2 ^ 53 \<Longrightarrow> fl (real_of_int k) = real_of_int k"
    by (auto simp: rounding_def)
  have e24: "fl 24 = 24" using exact [of 24] by simp
  have e4: "fl 4 = 4" using exact [of 4] by simp
  have e5: "fl 5 = 5" using exact [of 5] by simp
  have e12: "fl 12 = 12" using exact [of 12] by simp
  have e13: "fl 13 = 13" using exact [of 13] by simp
  have p: "fl (3 * 8) * float_0_2 = 24 * float_0_2" using e24 by simp
  have b: "4 \<le> 24 * float_0_2" "24 * float_0_2 \<le> 5" by (simp_all add: float_0_2_def)
  have lo: "4 \<le> fl (24 * float_0_2)" using mono [OF b(1)] e4 by simp
  have hi: "fl (24 * float_0_2) \<le> 5" using mono [OF b(2)] e5 by simp
  have "fl 12 \<le> fl (8 + fl (24 * float_0_2))" using lo by (intro mono) simp
  then show "12 \<le> fl (8 + fl (fl (3 * 8) * float_0_2))" using e12 unfolding p by simp
  have "fl (8 + fl (24 * float_0_2)) \<le> fl 13" using hi by (intro mono) simp
  then show "fl (8 + fl (fl (3 * 8) * float_0_2)) \<le> 13" using e13 unfolding p by simp
qed

text \<open>
  The mean of the default delay prior plus three of its standard deviations is above 13.
\<close>

lemma claimed_lead_time_default: "13 < claimed_lead_time 8 0.2"
proof -
  have m: "(1 + 1 / 50 :: real) \<le> exp (1 / 50)" by (rule exp_ge_add_one_self)
  have v: "(1 + 1 / 25 :: real) \<le> exp (1 / 25)" by (rule exp_ge_add_one_self)
  have "sqrt (1 / 25) \<le> sqrt (exp (1 / 25) - 1)"
    using v by (intro real_sqrt_le_mono) simp
  moreover have "sqrt (1 / 25) = 1 / 5"
    using real_sqrt_abs [of "1 / 5"] by (simp add: power2_eq_square)
  ultimately have s: "1 / 5 \<le> sqrt (exp (1 / 25) - 1)" by simp
  have mean: "8 * (1 + 1 / 50) \<le> lognormal_mean 8 0.2"
    using m by (simp add: lognormal_mean_def power2_eq_square)
  have pos: "0 \<le> lognormal_mean 8 0.2" using mean by simp
  have "lognormal_mean 8 0.2 * (1 / 5) \<le> lognormal_sd 8 0.2"
    unfolding lognormal_sd_def
    using s pos by (intro mult_left_mono) (simp_all add: power2_eq_square)
  then have "lognormal_mean 8 0.2 * (1 + 3 / 5) \<le> claimed_lead_time 8 0.2"
    by (simp add: claimed_lead_time_def algebra_simps)
  moreover have "8 * (1 + 1 / 50) * (1 + 3 / 5) \<le> lognormal_mean 8 0.2 * (1 + 3 / 5)"
    using mean by (intro mult_right_mono) simp_all
  ultimately show ?thesis by simp
qed

section \<open>The time-varying rate\<close>

text \<open>
  Claim C1 says that the increment of change point \<open>i\<close> is the smooth step times
  \<open>rate (i + 1) - rate i\<close>, so that the rate on the plateau after the last change point
  is the last rate. The loop of lines 111 to 117 never assigns \<open>lam_step_before\<close>, so
  every increment subtracts the first rate (\<open>lam_t_loop_map\<close>), and line 118 sums the
  increments alone. With two change points the second increment is the step times
  \<open>rate 2 - rate 0\<close>; where both steps have reached 1 the rate evaluates to
  \<open>(rate 1 - rate 0) + (rate 2 - rate 0)\<close>, not to \<open>rate 2\<close>.
\<close>

theorem lam_t_two_change_points:
  "map_of (model (SIR_model_with_change_points example_environment [1, 2, 3]
       [change_point_on 10, change_point_on 20] (day 0) 30 13 None)) (lam @ ''_t'') =
   Some (Deterministic
     (Add (Add (Num 0)
        (Mul (SmoothStep (Num 0) (Num 1) (RV ''transient_begin_0'')
                (Add (RV ''transient_begin_0'') (RV ''transient_len_0'')) 30)
             (Sub (RV (lam @ ''_1'')) (RV (lam @ ''_0'')))))
        (Mul (SmoothStep (Num 0) (Num 1) (RV ''transient_begin_1'')
                (Add (RV ''transient_begin_1'') (RV ''transient_len_1'')) 30)
             (Sub (RV (lam @ ''_2'')) (RV (lam @ ''_0''))))))
   \<and> eval (constant_helpers [1] cases) s
     (Add (Add (Num 0)
        (Mul (SmoothStep (Num 0) (Num 1) (RV ''transient_begin_0'')
                (Add (RV ''transient_begin_0'') (RV ''transient_len_0'')) 30)
             (Sub (RV (lam @ ''_1'')) (RV (lam @ ''_0'')))))
        (Mul (SmoothStep (Num 0) (Num 1) (RV ''transient_begin_1'')
                (Add (RV ''transient_begin_1'') (RV ''transient_len_1'')) 30)
             (Sub (RV (lam @ ''_2'')) (RV (lam @ ''_0'')))))
     = Some (Vec [s (lam @ ''_1'') - s (lam @ ''_0'') + (s (lam @ ''_2'') - s (lam @ ''_0''))])"
  by (simp add: run_simps constant_helpers_def)

text \<open>
  Claim C2 says that the rate is the baseline rate plus the increments, so that an empty
  list of change points gives the constant baseline. Line 118 sums the increments only:
  the baseline is not a summand. With one change point the rate is
  \<open>0 + step * (rate 1 - rate 0)\<close>: on a day where the step is still 0 it is 0, not the
  baseline \<open>rate 0\<close>, and on a day where the step has reached 1 it is \<open>rate 1 - rate 0\<close>.
  With no change point lines 109 to 118 give the integer 0 with which \<^verbatim>\<open>sum\<close> starts,
  whatever the baseline variable is.
\<close>

theorem lam_t_without_baseline:
  "build_lam_t [lam_0] [] [] num_days_sim = Inr (Num 0)
   \<and> build_lam_t [lam_0, lam_1] [transient_begin] [transient_len] num_days_sim =
       Inr (Add (Num 0)
              (Mul (SmoothStep (Num 0) (Num 1) transient_begin
                      (Add transient_begin transient_len) num_days_sim)
                   (Sub lam_1 lam_0)))
   \<and> map_of (model (SIR_model_with_change_points example_environment [1, 2, 3]
         [change_point_on 10] (day 0) 30 13 None)) (lam @ ''_t'') =
       Some (Deterministic
         (Add (Num 0)
            (Mul (SmoothStep (Num 0) (Num 1) (RV ''transient_begin_0'')
                    (Add (RV ''transient_begin_0'') (RV ''transient_len_0'')) 30)
                 (Sub (RV (lam @ ''_1'')) (RV (lam @ ''_0''))))))
   \<and> eval (constant_helpers [0, 1] cases) s
         (Add (Num 0)
            (Mul (SmoothStep (Num 0) (Num 1) (RV ''transient_begin_0'')
                    (Add (RV ''transient_begin_0'') (RV ''transient_len_0'')) 30)
                 (Sub (RV (lam @ ''_1'')) (RV (lam @ ''_0'')))))
       = Some (Vec [0, s (lam @ ''_1'') - s (lam @ ''_0'')])"
  by (simp add: run_simps constant_helpers_def)

section \<open>The likelihood\<close>

text \<open>
  Claim C3, as amended: in every model that is returned the last three variables are the
  likelihood \<^verbatim>\<open>obs\<close> and the two deterministic outputs \<^verbatim>\<open>lam_t\<close> and
  \<^verbatim>\<open>new_cases\<close>. The rate is the one that lines 109 to 118 build from the variables of
  the change points, and the inferred cases are the delayed new infections of the SIR run
  on that rate. The likelihood is a Student-t distribution with 4 degrees of freedom,
  observed at \<open>new_cases_obs\<close>; its location is the first \<open>length new_cases_obs\<close> entries
  of the inferred cases, and its scale on a day with expected count \<open>e\<close> is
  \<open>sqrt \<bar>e + 1\<bar> * sigma_obs\<close>. Where no expected count of the window is below \<open>- 1\<close>
  this is the scale \<open>sqrt (e + 1) * sigma_obs\<close> of the claim.
\<close>

theorem observation_likelihood:
  fixes new_cases_obs :: "real list"
  assumes ok: "raised (SIR_model_with_change_points E new_cases_obs change_points_list
                 date_begin_simulation num_days_sim diff_data_sim priors_arg) = None"
  shows "\<exists>m0 lam_t.
     build_lam_t (lam_vars (length change_points_list))
       (transient_begin_vars (length change_points_list))
       (transient_len_vars (length change_points_list)) num_days_sim = Inr lam_t \<and>
     model (SIR_model_with_change_points E new_cases_obs change_points_list
              date_begin_simulation num_days_sim diff_data_sim priors_arg) =
       m0 @ [(''obs'',
              StudentT (Num 4)
                (Slice (inferred lam_t num_days_sim diff_data_sim) (length new_cases_obs))
                (Mul (Power (Abs (Add (Slice (inferred lam_t num_days_sim diff_data_sim)
                                         (length new_cases_obs)) (Num 1))) (Num 0.5))
                     (RV (sigma @ ''_obs'')))
                new_cases_obs),
             (lam @ ''_t'', Deterministic lam_t),
             (''new_cases'', Deterministic (inferred lam_t num_days_sim diff_data_sim))] \<and>
     (\<forall>H s xs. eval H s (inferred lam_t num_days_sim diff_data_sim) = Some (Vec xs) \<longrightarrow>
        eval H s (Slice (inferred lam_t num_days_sim diff_data_sim) (length new_cases_obs))
          = Some (Vec (take (length new_cases_obs) xs)) \<and>
        eval H s (Mul (Power (Abs (Add (Slice (inferred lam_t num_days_sim diff_data_sim)
                                         (length new_cases_obs)) (Num 1))) (Num 0.5))
                     (RV (sigma @ ''_obs'')))
          = Some (Vec (map (\<lambda>e. sqrt \<bar>e + 1\<bar> * s (sigma @ ''_obs''))
                       (take (length new_cases_obs) xs))) \<and>
        ((\<forall>e\<in>set (take (length new_cases_obs) xs). - 1 \<le> e) \<longrightarrow>
           eval H s (Mul (Power (Abs (Add (Slice (inferred lam_t num_days_sim diff_data_sim)
                                         (length new_cases_obs)) (Num 1))) (Num 0.5))
                     (RV (sigma @ ''_obs'')))
             = Some (Vec (claimed_scale (take (length new_cases_obs) xs)
                            (s (sigma @ ''_obs''))))))"
proof -
  from run_success [OF ok] obtain u where
    mc: "model_context E new_cases_obs
           (map (fill_priors default_priors_change_points) change_points_list)
           date_begin_simulation num_days_sim diff_data_sim
           (fill_priors default_priors (case priors_arg of None \<Rightarrow> [] | Some d \<Rightarrow> d))
         = Inr (u, model (SIR_model_with_change_points E new_cases_obs change_points_list
              date_begin_simulation num_days_sim diff_data_sim priors_arg))"
    by blast
  from model_context_end [OF mc] obtain m0 lt where
    lt: "build_lam_t (lam_vars (length change_points_list))
       (transient_begin_vars (length change_points_list))
       (transient_len_vars (length change_points_list)) num_days_sim = Inr lt" and
    m: "model (SIR_model_with_change_points E new_cases_obs change_points_list
              date_begin_simulation num_days_sim diff_data_sim priors_arg) =
       m0 @ [(''obs'',
              StudentT (Num 4)
                (Slice (inferred lt num_days_sim diff_data_sim) (length new_cases_obs))
                (Mul (Power (Abs (Add (Slice (inferred lt num_days_sim diff_data_sim)
                                         (length new_cases_obs)) (Num 1))) (Num 0.5))
                     (RV (sigma @ ''_obs'')))
                new_cases_obs),
             (lam @ ''_t'', Deterministic lt),
             (''new_cases'', Deterministic (inferred lt num_days_sim diff_data_sim))]"
    by auto
  define nci where "nci = inferred lt num_days_sim diff_data_sim"
  define sg_e where "sg_e = Mul (Power (Abs (Add (Slice nci (length new_cases_obs)) (Num 1)))
                                  (Num 0.5)) (RV (sigma @ ''_obs''))"
  have ev: "\<forall>H s xs. eval H s nci = Some (Vec xs) \<longrightarrow>
        eval H s (Slice nci (length new_cases_obs)) = Some (Vec (take (length new_cases_obs) xs)) \<and>
        eval H s sg_e =
          Some (Vec (map (\<lambda>e. sqrt \<bar>e + 1\<bar> * s (sigma @ ''_obs''))
                       (take (length new_cases_obs) xs))) \<and>
        ((\<forall>e\<in>set (take (length new_cases_obs) xs). - 1 \<le> e) \<longrightarrow>
           eval H s sg_e =
             Some (Vec (claimed_scale (take (length new_cases_obs) xs) (s (sigma @ ''_obs'')))))"
  proof (intro allI impI)
    fix H s xs
    assume e: "eval H s nci = Some (Vec xs)"
    note sc = eval_obs_scale(1) [OF e, where k = "length new_cases_obs"]
      eval_obs_scale(2) [OF e, where k = "length new_cases_obs" and name = "sigma @ ''_obs''",
        folded sg_e_def]
    show "eval H s (Slice nci (length new_cases_obs)) = Some (Vec (take (length new_cases_obs) xs)) \<and>
        eval H s sg_e =
          Some (Vec (map (\<lambda>e. sqrt \<bar>e + 1\<bar> * s (sigma @ ''_obs''))
                       (take (length new_cases_obs) xs))) \<and>
        ((\<forall>e\<in>set (take (length new_cases_obs) xs). - 1 \<le> e) \<longrightarrow>
           eval H s sg_e =
             Some (Vec (claimed_scale (take (length new_cases_obs) xs) (s (sigma @ ''_obs'')))))"
      using sc claimed_scale_eq [of "take (length new_cases_obs) xs" "s (sigma @ ''_obs'')"]
      by simp
  qed
  show ?thesis
    using lt m ev unfolding nci_def sg_e_def by blast
qed

text \<open>
  A run of claim C3 that returns a model: one change point, three observations, and
  inferred cases 3, 8, 15, 24 with \<open>sigma_obs = 2\<close>.
\<close>

theorem observation_likelihood_witness:
  "raised (SIR_model_with_change_points example_environment [1, 2, 3] [change_point_on 10]
             (day 0) 30 13 None) = None \<and>
   (case map_of (model (SIR_model_with_change_points example_environment [1, 2, 3]
                          [change_point_on 10] (day 0) 30 13 None)) ''obs'' of
      Some (StudentT nu mu_e sg_e observed) \<Rightarrow>
        nu = Num 4 \<and> observed = [1, 2, 3] \<and>
        eval (constant_helpers [1] [3, 8, 15, 24]) (\<lambda>name. 2) mu_e = Some (Vec [3, 8, 15]) \<and>
        eval (constant_helpers [1] [3, 8, 15, 24]) (\<lambda>name. 2) sg_e = Some (Vec [4, 6, 8])
    | _ \<Rightarrow> False)"
proof -
  have h: "raised (SIR_model_with_change_points example_environment [1, 2, 3]
             [change_point_on 10] (day 0) 30 13 None) = None"
    by (simp add: run_simps)
  have s4: "sqrt 4 = 2" "sqrt 9 = 3" "sqrt 16 = 4"
    using real_sqrt_abs [of 2] real_sqrt_abs [of 3] real_sqrt_abs [of 4] by simp_all
  have c: "(case map_of (model (SIR_model_with_change_points example_environment [1, 2, 3]
                          [change_point_on 10] (day 0) 30 13 None)) ''obs'' of
      Some (StudentT nu mu_e sg_e observed) \<Rightarrow>
        nu = Num 4 \<and> observed = [1, 2, 3] \<and>
        eval (constant_helpers [1] [3, 8, 15, 24]) (\<lambda>name. 2) mu_e = Some (Vec [3, 8, 15]) \<and>
        eval (constant_helpers [1] [3, 8, 15, 24]) (\<lambda>name. 2) sg_e = Some (Vec [4, 6, 8])
    | _ \<Rightarrow> False)"
    by (simp add: run_simps constant_helpers_def powr_half_sqrt s4)
  show ?thesis using observation_likelihood [OF h] h c by simp
qed

text \<open>
  Claim C3 as stated fails where an expected count is below \<open>- 1\<close>: in the model of a
  call with one change point and one observation, at the expected count \<open>- 5\<close> and
  \<open>sigma_obs = 1\<close>, the scale of the likelihood is 2, the absolute value being taken
  before the root, and the claimed \<open>sqrt (e + 1) * sigma_obs\<close> is not (the real root of
  HOL gives \<open>- 2\<close>; Python's power gives no number).
\<close>

theorem observation_scale_counterexample:
  "raised (SIR_model_with_change_points example_environment [1] [change_point_on 10]
             (day 0) 30 13 None) = None \<and>
   (case map_of (model (SIR_model_with_change_points example_environment [1]
                          [change_point_on 10] (day 0) 30 13 None)) ''obs'' of
      Some (StudentT nu mu_e sg_e observed) \<Rightarrow>
        eval (constant_helpers [1] [- 5]) (\<lambda>name. 1) mu_e = Some (Vec [- 5]) \<and>
        eval (constant_helpers [1] [- 5]) (\<lambda>name. 1) sg_e = Some (Vec [2]) \<and>
        claimed_scale [- 5] 1 = [- 2]
    | _ \<Rightarrow> False)"
proof -
  have s4: "sqrt 4 = 2" using real_sqrt_abs [of 2] by simp
  show ?thesis
    by (simp add: run_simps constant_helpers_def claimed_scale_def powr_half_sqrt
        real_sqrt_minus s4)
qed

section \<open>Validation of the configuration\<close>

text \<open>
  Claim C4: when the priors dictionary or a change point holds a key that is no
  recognised option name, the call raises the unknown-option error for such a key, and
  the model context holds no variable. When all keys are recognised, no unknown-option
  error is raised, and afterwards the priors dictionary and every change point hold
  each supplied entry and, for each recognised name that was missing, its default.
\<close>

theorem unknown_option_error:
  fixes E :: environment and priors_arg :: "real dict option" and priors_dic :: "real dict"
    and change_points_list :: "pyval dict list" and new_cases_obs :: "real list"
    and date_begin_simulation :: datetime and num_days_sim diff_data_sim :: int
    and R :: outcome
  defines "priors_dic \<equiv> (case priors_arg of None \<Rightarrow> [] | Some d \<Rightarrow> d)"
    and "R \<equiv> SIR_model_with_change_points E new_cases_obs change_points_list
                date_begin_simulation num_days_sim diff_data_sim priors_arg"
  shows "(\<not> keys priors_dic \<subseteq> keys default_priors \<or>
          (\<exists>cp\<in>set change_points_list. \<not> keys cp \<subseteq> keys default_priors_change_points) \<longrightarrow>
            (\<exists>name. raised R = Some (RuntimeError (msg_not_known name)) \<and>
               (name \<in> keys priors_dic \<and> name \<notin> keys default_priors \<or>
                (\<exists>cp\<in>set change_points_list.
                    name \<in> keys cp \<and> name \<notin> keys default_priors_change_points))) \<and>
            model R = [])
       \<and> (keys priors_dic \<subseteq> keys default_priors \<and>
          (\<forall>cp\<in>set change_points_list. keys cp \<subseteq> keys default_priors_change_points) \<longrightarrow>
            (\<forall>name. raised R \<noteq> Some (RuntimeError (msg_not_known name))) \<and>
            (\<forall>k. map_of (priors_dic_final R) k =
                  (case map_of priors_dic k of Some v \<Rightarrow> Some v
                   | None \<Rightarrow> map_of default_priors k)) \<and>
            length (change_points_final R) = length change_points_list \<and>
            (\<forall>i<length change_points_list. \<forall>k.
                map_of (change_points_final R ! i) k =
                  (case map_of (change_points_list ! i) k of Some v \<Rightarrow> Some v
                   | None \<Rightarrow> map_of default_priors_change_points k)))"
proof (intro conjI impI)
  assume bad: "\<not> keys priors_dic \<subseteq> keys default_priors \<or>
          (\<exists>cp\<in>set change_points_list. \<not> keys cp \<subseteq> keys default_priors_change_points)"
  have "\<exists>name. (raised R = Some (RuntimeError (msg_not_known name)) \<and>
               (name \<in> keys priors_dic \<and> name \<notin> keys default_priors \<or>
                (\<exists>cp\<in>set change_points_list.
                    name \<in> keys cp \<and> name \<notin> keys default_priors_change_points))) \<and>
            model R = []"
  proof (cases "keys priors_dic \<subseteq> keys default_priors")
    case False
    then obtain e where e: "check_prior_names default_priors priors_dic = Some e"
      using check_prior_names_None_iff [of default_priors priors_dic]
      by (auto simp: keys_def)
    from check_prior_names_Some [OF e] obtain name where
      n: "name \<in> keys priors_dic" "name \<notin> keys default_priors"
         "e = RuntimeError (msg_not_known name)"
      by (auto simp: keys_def)
    from run_invalid_priors [OF e [unfolded priors_dic_def]]
    have "raised R = Some e \<and> model R = []" unfolding R_def by simp
    then show ?thesis using n by blast
  next
    case True
    then have a: "check_prior_names default_priors priors_dic = None"
      by (simp add: check_prior_names_None_iff keys_def)
    from bad True have
      "check_change_point_names default_priors_change_points change_points_list \<noteq> None"
      by (auto simp: check_change_point_names_None_iff keys_def)
    then obtain e where
      e: "check_change_point_names default_priors_change_points change_points_list = Some e"
      by auto
    from check_change_point_names_Some [OF e] obtain cp name where
      n: "cp \<in> set change_points_list" "name \<in> keys cp"
         "name \<notin> keys default_priors_change_points" "e = RuntimeError (msg_not_known name)"
      by (auto simp: keys_def)
    from run_invalid_change_point [OF a [unfolded priors_dic_def] e]
    have "raised R = Some e \<and> model R = []" unfolding R_def by simp
    then show ?thesis using n by blast
  qed
  then show "\<exists>name. raised R = Some (RuntimeError (msg_not_known name)) \<and>
               (name \<in> keys priors_dic \<and> name \<notin> keys default_priors \<or>
                (\<exists>cp\<in>set change_points_list.
                    name \<in> keys cp \<and> name \<notin> keys default_priors_change_points))"
    and "model R = []" by blast+
next
  assume ok: "keys priors_dic \<subseteq> keys default_priors \<and>
          (\<forall>cp\<in>set change_points_list. keys cp \<subseteq> keys default_priors_change_points)"
  then have v1: "keys priors_dic \<subseteq> keys default_priors"
    and v2: "\<forall>cp\<in>set change_points_list. keys cp \<subseteq> keys default_priors_change_points"
    by blast+
  from delay_priors_exist [of priors_dic] obtain md sd where
    md: "map_of (priors_dic @ default_priors) ''prior_median_delay'' = Some md" and
    sd: "map_of (priors_dic @ default_priors) ''prior_sigma_delay'' = Some sd" by blast
  from run_valid_cases [OF v1 v2 priors_dic_def [THEN meta_eq_to_obj_eq] md sd
      R_def [THEN meta_eq_to_obj_eq] refl refl]
  have fin: "priors_dic_final R = fill_priors default_priors priors_dic"
    "change_points_final R = map (fill_priors default_priors_change_points) change_points_list"
    by blast+
  from run_valid_raised [OF v1 v2 priors_dic_def [THEN meta_eq_to_obj_eq]
      R_def [THEN meta_eq_to_obj_eq]]
  show "\<forall>name. raised R \<noteq> Some (RuntimeError (msg_not_known name))"
    using msgs_distinct by auto
  show "\<forall>k. map_of (priors_dic_final R) k =
                  (case map_of priors_dic k of Some v \<Rightarrow> Some v
                   | None \<Rightarrow> map_of default_priors k)"
    using fin by (simp add: map_of_fill_priors map_add_def)
  show "length (change_points_final R) = length change_points_list"
    using fin by simp
  show "\<forall>i<length change_points_list. \<forall>k.
                map_of (change_points_final R ! i) k =
                  (case map_of (change_points_list ! i) k of Some v \<Rightarrow> Some v
                   | None \<Rightarrow> map_of default_priors_change_points k)"
    using fin by (simp add: map_of_fill_priors map_add_def)
qed

text \<open>
  Claim C4 on two calls: the priors dictionary \<^verbatim>\<open>{'not_a_real_prior': 1}\<close>, and a
  configuration whose only supplied prior is the median of the delay.
\<close>

theorem unknown_option_error_witness:
  "\<not> keys [(''not_a_real_prior'', 1 :: real)] \<subseteq> keys default_priors \<and>
   raised (SIR_model_with_change_points example_environment [] [] (day 0) 0 0
             (Some [(''not_a_real_prior'', 1)]))
     = Some (RuntimeError (msg_not_known ''not_a_real_prior'')) \<and>
   model (SIR_model_with_change_points example_environment [] [] (day 0) 0 0
            (Some [(''not_a_real_prior'', 1)])) = [] \<and>
   keys [(''prior_median_delay'', 5 :: real)] \<subseteq> keys default_priors \<and>
   keys (change_point_on 10) \<subseteq> keys default_priors_change_points \<and>
   raised (SIR_model_with_change_points example_environment [1, 2, 3]
             [change_point_on 10] (day 0) 30 13
             (Some [(''prior_median_delay'', 5)])) = None \<and>
   map_of (priors_dic_final (SIR_model_with_change_points example_environment [1, 2, 3]
             [change_point_on 10] (day 0) 30 13
             (Some [(''prior_median_delay'', 5)]))) ''prior_median_delay'' = Some 5 \<and>
   map_of (priors_dic_final (SIR_model_with_change_points example_environment [1, 2, 3]
             [change_point_on 10] (day 0) 30 13
             (Some [(''prior_median_delay'', 5)]))) ''prior_sigma_delay'' = Some float_0_2"
  using unknown_option_error [where priors_arg = "Some [(''not_a_real_prior'', 1)]"
      and change_points_list = "[]" and new_cases_obs = "[]"
      and date_begin_simulation = "day 0" and num_days_sim = 0 and diff_data_sim = 0
      and E = example_environment]
    unknown_option_error [where priors_arg = "Some [(''prior_median_delay'', 5)]"
      and change_points_list = "[change_point_on 10]" and new_cases_obs = "[1, 2, 3]"
      and date_begin_simulation = "day 0" and num_days_sim = 30 and diff_data_sim = 13
      and E = example_environment]
  by (simp add: run_simps msg_not_known_def)

section \<open>The simulation horizon\<close>

text \<open>
  Claim C5, as amended: when all keys are recognised and the supplied delay priors are
  within range, the call raises the insufficient-lead-time error exactly when \<open>diff_data_sim\<close> is below the threshold of
  line 68, \<^verbatim>\<open>median + 3*median*sigma\<close> evaluated in floating point on the values of the
  delay prior that were supplied, or else on the defaults. The error is raised with no
  variable declared. With the default delay prior (median 8, sigma 0.2) the threshold
  lies between 12 and 13 under any rounding: \<open>diff_data_sim = 0\<close>, and every value up to
  11, raises the error, and no value from 13 on does.

  The threshold is not the mean of the delay prior plus three standard deviations, which
  is above 13 for the default prior: line 68 takes the median for the mean and the median
  times sigma for the standard deviation.
\<close>

theorem insufficient_lead_time:
  fixes E :: environment and priors_arg :: "real dict option" and priors_dic :: "real dict"
    and change_points_list :: "pyval dict list" and new_cases_obs :: "real list"
    and date_begin_simulation :: datetime and num_days_sim diff_data_sim :: int
    and R :: outcome
  defines "priors_dic \<equiv> (case priors_arg of None \<Rightarrow> [] | Some d \<Rightarrow> d)"
    and "R \<equiv> SIR_model_with_change_points E new_cases_obs change_points_list
                date_begin_simulation num_days_sim diff_data_sim priors_arg"
  assumes v1: "keys priors_dic \<subseteq> keys default_priors"
    and v2: "\<forall>cp\<in>set change_points_list. keys cp \<subseteq> keys default_priors_change_points"
    and range: "delay_prior_in_range priors_dic"
    and md: "map_of (priors_dic @ default_priors) ''prior_median_delay'' = Some median_delay"
    and sd: "map_of (priors_dic @ default_priors) ''prior_sigma_delay'' = Some sigma_delay"
  shows "(raised R = Some (RuntimeError msg_diff_data_sim)) =
           (real_of_int diff_data_sim
              < float_round E (median_delay
                  + float_round E (float_round E (3 * median_delay) * sigma_delay)))
       \<and> (raised R = Some (RuntimeError msg_diff_data_sim) \<longrightarrow> model R = [])
       \<and> (\<not> contains priors_dic ''prior_median_delay'' \<and>
          \<not> contains priors_dic ''prior_sigma_delay'' \<and> rounding (float_round E) \<longrightarrow>
            median_delay = 8 \<and> sigma_delay = float_0_2 \<and>
            (diff_data_sim \<le> 11 \<longrightarrow> raised R = Some (RuntimeError msg_diff_data_sim)) \<and>
            (13 \<le> diff_data_sim \<longrightarrow> raised R \<noteq> Some (RuntimeError msg_diff_data_sim)))"
proof -
  note rc = run_valid_cases [OF v1 v2 priors_dic_def [THEN meta_eq_to_obj_eq] md sd
      R_def [THEN meta_eq_to_obj_eq] refl refl]
  have iff: "(raised R = Some (RuntimeError msg_diff_data_sim)) =
           (real_of_int diff_data_sim
              < float_round E (median_delay
                  + float_round E (float_round E (3 * median_delay) * sigma_delay)))"
    using rc msgs_distinct by (auto split: if_splits sum.splits prod.splits)
  have empty: "raised R = Some (RuntimeError msg_diff_data_sim) \<longrightarrow> model R = []"
    using rc msgs_distinct by (auto split: if_splits sum.splits prod.splits)
  have dflt: "median_delay = 8 \<and> sigma_delay = float_0_2 \<and>
            (diff_data_sim \<le> 11 \<longrightarrow> raised R = Some (RuntimeError msg_diff_data_sim)) \<and>
            (13 \<le> diff_data_sim \<longrightarrow> raised R \<noteq> Some (RuntimeError msg_diff_data_sim))"
    if "\<not> contains priors_dic ''prior_median_delay'' \<and>
        \<not> contains priors_dic ''prior_sigma_delay'' \<and> rounding (float_round E)"
  proof -
    from that have n: "map_of priors_dic ''prior_median_delay'' = None"
      "map_of priors_dic ''prior_sigma_delay'' = None"
      by (simp_all add: contains_iff)
    from that have r: "rounding (float_round E)" by simp
    have "map_of (priors_dic @ default_priors) ''prior_median_delay'' = Some 8"
      "map_of (priors_dic @ default_priors) ''prior_sigma_delay'' = Some float_0_2"
      using n map_of_default_delay by (simp_all add: map_add_def)
    with md sd have "Some median_delay = Some 8" "Some sigma_delay = Some float_0_2"
      by simp_all
    then have v: "median_delay = 8" "sigma_delay = float_0_2" by blast+
    note th = default_threshold [OF r]
    have lo: "raised R = Some (RuntimeError msg_diff_data_sim)" if "diff_data_sim \<le> 11"
    proof -
      from that have "real_of_int diff_data_sim \<le> 11" by simp
      then have "real_of_int diff_data_sim
          < float_round E (8 + float_round E (float_round E (3 * 8) * float_0_2))"
        using th(1) by linarith
      then show ?thesis using iff v by simp
    qed
    have hi: "raised R \<noteq> Some (RuntimeError msg_diff_data_sim)" if "13 \<le> diff_data_sim"
    proof -
      from that have "13 \<le> real_of_int diff_data_sim" by simp
      then have "\<not> real_of_int diff_data_sim
          < float_round E (8 + float_round E (float_round E (3 * 8) * float_0_2))"
        using th(2) by linarith
      then show ?thesis using iff v by simp
    qed
    show ?thesis using v lo hi by blast
  qed
  show ?thesis using iff empty dflt by blast
qed

text \<open>
  Claim C5 on the call with no priors, one change point and \<open>diff_data_sim = 0\<close>.
\<close>

theorem insufficient_lead_time_witness:
  "keys ([] :: real dict) \<subseteq> keys default_priors \<and>
   keys (change_point_on 10) \<subseteq> keys default_priors_change_points \<and>
   delay_prior_in_range [] \<and>
   map_of ([] @ default_priors) ''prior_median_delay'' = Some 8 \<and>
   map_of ([] @ default_priors) ''prior_sigma_delay'' = Some float_0_2 \<and>
   \<not> contains ([] :: real dict) ''prior_median_delay'' \<and>
   \<not> contains ([] :: real dict) ''prior_sigma_delay'' \<and>
   rounding (float_round example_environment) \<and>
   raised (SIR_model_with_change_points example_environment [1, 2, 3] [change_point_on 10]
             (day 0) 30 0 None)
     = Some (RuntimeError msg_diff_data_sim) \<and>
   model (SIR_model_with_change_points example_environment [1, 2, 3] [change_point_on 10]
            (day 0) 30 0 None) = []"
proof -
  have r: "rounding (float_round example_environment)"
    using rounding_exact by (simp add: example_environment_def)
  show ?thesis
    using insufficient_lead_time [where E = example_environment and priors_arg = None
        and change_points_list = "[change_point_on 10]" and median_delay = 8
        and sigma_delay = float_0_2 and new_cases_obs = "[1, 2, 3]"
        and date_begin_simulation = "day 0" and num_days_sim = 30 and diff_data_sim = 0] r
    by (simp add: run_simps delay_prior_in_range_def)
qed

text \<open>
  Claim C5 as stated fails on the default delay prior. The mean of that prior plus three of
  its standard deviations is above 13, so \<open>diff_data_sim = 13\<close> is too small in the words
  of the claim; the call does not raise the error, it returns a model. Nor is the
  threshold the median plus three times sigma, \<open>8.6\<close>: \<open>diff_data_sim = 9\<close> is above it and
  the call raises the error.
\<close>

theorem lead_time_counterexample:
  "real_of_int 13 < claimed_lead_time 8 0.2 \<and>
   raised (SIR_model_with_change_points example_environment [1, 2, 3] [change_point_on 10]
             (day 0) 30 13 None) = None \<and>
   \<not> real_of_int 9 < 8 + 3 * 0.2 \<and>
   raised (SIR_model_with_change_points example_environment [1, 2, 3] [change_point_on 10]
             (day 0) 30 9 None) = Some (RuntimeError msg_diff_data_sim)"
proof -
  have a: "real_of_int 13 < claimed_lead_time 8 0.2"
    using claimed_lead_time_default by simp
  have b: "raised (SIR_model_with_change_points example_environment [1, 2, 3]
             [change_point_on 10] (day 0) 30 13 None) = None"
    by (simp add: run_simps)
  have c: "raised (SIR_model_with_change_points example_environment [1, 2, 3]
             [change_point_on 10] (day 0) 30 9 None) = Some (RuntimeError msg_diff_data_sim)"
    by (simp add: run_simps)
  show ?thesis using a b c by simp
qed

text \<open>
  Claim C6, as amended: when all keys are recognised, the supplied delay priors are within
  range and the lead time suffices (the check of line 68 passes), the call raises the horizon-too-short error if and only if
  \<open>num_days_sim\<close> is below the number of observations plus \<open>diff_data_sim\<close>, and it
  raises it with no variable declared.
\<close>

theorem horizon_too_short:
  fixes E :: environment and priors_arg :: "real dict option" and priors_dic :: "real dict"
    and change_points_list :: "pyval dict list" and new_cases_obs :: "real list"
    and date_begin_simulation :: datetime and num_days_sim diff_data_sim :: int
    and R :: outcome
  defines "priors_dic \<equiv> (case priors_arg of None \<Rightarrow> [] | Some d \<Rightarrow> d)"
    and "R \<equiv> SIR_model_with_change_points E new_cases_obs change_points_list
                date_begin_simulation num_days_sim diff_data_sim priors_arg"
  assumes v1: "keys priors_dic \<subseteq> keys default_priors"
    and v2: "\<forall>cp\<in>set change_points_list. keys cp \<subseteq> keys default_priors_change_points"
    and range: "delay_prior_in_range priors_dic"
    and md: "map_of (priors_dic @ default_priors) ''prior_median_delay'' = Some median_delay"
    and sd: "map_of (priors_dic @ default_priors) ''prior_sigma_delay'' = Some sigma_delay"
    and lead: "\<not> real_of_int diff_data_sim
                  < float_round E (median_delay
                      + float_round E (float_round E (3 * median_delay) * sigma_delay))"
  shows "(raised R = Some (RuntimeError msg_num_days_sim)) =
           (num_days_sim < int (length new_cases_obs) + diff_data_sim)
       \<and> (raised R = Some (RuntimeError msg_num_days_sim) \<longrightarrow> model R = [])"
proof -
  note rc = run_valid_cases [OF v1 v2 priors_dic_def [THEN meta_eq_to_obj_eq] md sd
      R_def [THEN meta_eq_to_obj_eq] refl refl]
  show ?thesis
    using rc lead msgs_distinct by (auto split: if_splits sum.splits prod.splits)
qed

text \<open>
  Claim C6 on two calls with one change point, three observations and
  \<open>diff_data_sim = 13\<close>: 15 simulated days are too few, 16 are enough.
\<close>

theorem horizon_too_short_witness:
  "keys ([] :: real dict) \<subseteq> keys default_priors \<and>
   keys (change_point_on 10) \<subseteq> keys default_priors_change_points \<and>
   delay_prior_in_range [] \<and>
   map_of ([] @ default_priors) ''prior_median_delay'' = Some 8 \<and>
   map_of ([] @ default_priors) ''prior_sigma_delay'' = Some float_0_2 \<and>
   \<not> real_of_int 13
       < float_round example_environment
           (8 + float_round example_environment
                  (float_round example_environment (3 * 8) * float_0_2)) \<and>
   raised (SIR_model_with_change_points example_environment [1, 2, 3] [change_point_on 10]
             (day 0) 15 13 None)
     = Some (RuntimeError msg_num_days_sim) \<and>
   model (SIR_model_with_change_points example_environment [1, 2, 3] [change_point_on 10]
            (day 0) 15 13 None) = [] \<and>
   raised (SIR_model_with_change_points example_environment [1, 2, 3] [change_point_on 10]
             (day 0) 16 13 None) = None"
  using horizon_too_short [where E = example_environment and priors_arg = None
      and change_points_list = "[change_point_on 10]" and median_delay = 8
      and sigma_delay = float_0_2 and new_cases_obs = "[1, 2, 3]"
      and date_begin_simulation = "day 0" and num_days_sim = 15 and diff_data_sim = 13]
  by (simp add: run_simps delay_prior_in_range_def)

text \<open>
  Claim C6 as stated fails where the lead time does not suffice: with three observations,
  \<open>num_days_sim = 1\<close> and \<open>diff_data_sim = 0\<close> the horizon is too short, and the call
  raises the insufficient-lead-time error of line 69, not the horizon-too-short error.
\<close>

theorem horizon_counterexample:
  "(1 :: int) < int (length [1, 2, 3 :: real]) + 0 \<and>
   raised (SIR_model_with_change_points example_environment [1, 2, 3] [change_point_on 10]
             (day 0) 1 0 None) = Some (RuntimeError msg_diff_data_sim) \<and>
   raised (SIR_model_with_change_points example_environment [1, 2, 3] [change_point_on 10]
             (day 0) 1 0 None) \<noteq> Some (RuntimeError msg_num_days_sim)"
  by (simp add: run_simps msg_diff_data_sim_def msg_num_days_sim_def)

section \<open>The order of the change points\<close>




section \<open>The variables of the model\<close>

text \<open>
  Claim C8: a call is a function of its arguments, so two calls on the same arguments
  declare the same variables. Beyond that, every model that is returned declares the
  variables of \<open>variable_names\<close> in this order, and nothing else: the names depend on the
  number of change points only, there are three for each change point and eight more,
  and no name is declared twice.
\<close>

theorem variables_of_model:
  fixes new_cases_obs :: "real list"
  assumes ok: "raised (SIR_model_with_change_points E new_cases_obs change_points_list
                 date_begin_simulation num_days_sim diff_data_sim priors_arg) = None"
  shows "map fst (model (SIR_model_with_change_points E new_cases_obs change_points_list
                 date_begin_simulation num_days_sim diff_data_sim priors_arg))
           = variable_names (length change_points_list)
       \<and> length (model (SIR_model_with_change_points E new_cases_obs change_points_list
                 date_begin_simulation num_days_sim diff_data_sim priors_arg))
           = 3 * length change_points_list + 8
       \<and> distinct (map fst (model (SIR_model_with_change_points E new_cases_obs change_points_list
                 date_begin_simulation num_days_sim diff_data_sim priors_arg)))"
proof -
  from run_success [OF ok] obtain u where
    "model_context E new_cases_obs (map (fill_priors default_priors_change_points) change_points_list)
           date_begin_simulation num_days_sim diff_data_sim
           (fill_priors default_priors (case priors_arg of None \<Rightarrow> [] | Some d \<Rightarrow> d))
         = Inr (u, model (SIR_model_with_change_points E new_cases_obs change_points_list
              date_begin_simulation num_days_sim diff_data_sim priors_arg))"
    by blast
  from model_context_names [OF this]
  have n: "map fst (model (SIR_model_with_change_points E new_cases_obs change_points_list
                 date_begin_simulation num_days_sim diff_data_sim priors_arg))
           = variable_names (length change_points_list)"
    by simp
  have "length (variable_names (length change_points_list)) = 3 * length change_points_list + 8"
    by (simp add: variable_names_def)
  then have "length (model (SIR_model_with_change_points E new_cases_obs change_points_list
                 date_begin_simulation num_days_sim diff_data_sim priors_arg))
           = 3 * length change_points_list + 8"
    using n by (metis length_map)
  then show ?thesis using n distinct_variable_names [of "length change_points_list"] by simp
qed

text \<open>Claim C8 on a call with two change points: fourteen variables.\<close>

theorem variables_of_model_witness:
  "raised (SIR_model_with_change_points example_environment [1, 2, 3]
             [change_point_on 10, change_point_on 20] (day 0) 30 13 None) = None \<and>
   map fst (model (SIR_model_with_change_points example_environment [1, 2, 3]
             [change_point_on 10, change_point_on 20] (day 0) 30 13 None))
     = [''I_begin'', lam @ ''_0'', lam @ ''_1'', lam @ ''_2'',
        ''transient_begin_0'', ''transient_begin_1'',
        ''transient_len_0'', ''transient_len_1'',
        mu, ''delay'', sigma @ ''_obs'', ''obs'', lam @ ''_t'', ''new_cases''] \<and>
   variable_names 2
     = [''I_begin'', lam @ ''_0'', lam @ ''_1'', lam @ ''_2'',
        ''transient_begin_0'', ''transient_begin_1'',
        ''transient_len_0'', ''transient_len_1'',
        mu, ''delay'', sigma @ ''_obs'', ''obs'', lam @ ''_t'', ''new_cases'']"
proof -
  have h: "raised (SIR_model_with_change_points example_environment [1, 2, 3]
             [change_point_on 10, change_point_on 20] (day 0) 30 13 None) = None"
    by (simp add: run_simps)
  have v: "variable_names 2
     = [''I_begin'', lam @ ''_0'', lam @ ''_1'', lam @ ''_2'',
        ''transient_begin_0'', ''transient_begin_1'',
        ''transient_len_0'', ''transient_len_1'',
        mu, ''delay'', sigma @ ''_obs'', ''obs'', lam @ ''_t'', ''new_cases'']"
    by (simp add: variable_names_def str_nat.simps upt_rec)
  then have v': "variable_names (Suc (Suc 0))
     = [''I_begin'', lam @ ''_0'', lam @ ''_1'', lam @ ''_2'',
        ''transient_begin_0'', ''transient_begin_1'',
        ''transient_len_0'', ''transient_len_1'',
        mu, ''delay'', sigma @ ''_obs'', ''obs'', lam @ ''_t'', ''new_cases'']"
    by (simp add: numeral_2_eq_2)
  show ?thesis using variables_of_model [OF h] h v v' by simp
qed

section \<open>What a call leaves in the caller's dictionaries\<close>

text \<open>
  Claim C9: when all keys are recognised, the call ends, however it ends, with the
  priors dictionary holding its entries followed by the defaults it lacked, and with
  every dictionary of the change-point list holding its entries followed by the
  change-point defaults it lacked. In particular a call that fails one of the horizon
  checks, or fails later, leaves the dictionaries filled.
\<close>

theorem defaults_persist:
  fixes E :: environment and priors_arg :: "real dict option" and priors_dic :: "real dict"
    and change_points_list :: "pyval dict list" and new_cases_obs :: "real list"
    and date_begin_simulation :: datetime and num_days_sim diff_data_sim :: int
    and R :: outcome
  defines "priors_dic \<equiv> (case priors_arg of None \<Rightarrow> [] | Some d \<Rightarrow> d)"
    and "R \<equiv> SIR_model_with_change_points E new_cases_obs change_points_list
                date_begin_simulation num_days_sim diff_data_sim priors_arg"
  assumes v1: "keys priors_dic \<subseteq> keys default_priors"
    and v2: "\<forall>cp\<in>set change_points_list. keys cp \<subseteq> keys default_priors_change_points"
  shows "priors_dic_final R
           = priors_dic @ filter (\<lambda>(k, v). \<not> contains priors_dic k) default_priors
       \<and> change_points_final R
           = map (\<lambda>cp. cp @ filter (\<lambda>(k, v). \<not> contains cp k) default_priors_change_points)
               change_points_list
       \<and> (\<forall>k. contains default_priors k \<longrightarrow> contains (priors_dic_final R) k)
       \<and> (\<forall>cp\<in>set (change_points_final R).
            \<forall>k. contains default_priors_change_points k \<longrightarrow> contains cp k)"
proof -
  from delay_priors_exist [of priors_dic] obtain md sd where
    md: "map_of (priors_dic @ default_priors) ''prior_median_delay'' = Some md" and
    sd: "map_of (priors_dic @ default_priors) ''prior_sigma_delay'' = Some sd" by blast
  from run_valid_cases [OF v1 v2 priors_dic_def [THEN meta_eq_to_obj_eq] md sd
      R_def [THEN meta_eq_to_obj_eq] refl refl]
  have fin: "priors_dic_final R = fill_priors default_priors priors_dic"
    "change_points_final R = map (fill_priors default_priors_change_points) change_points_list"
    by blast+
  show ?thesis
    unfolding fin
    using filled_priors [of priors_dic] filled_change_points [of change_points_list]
    by (simp add: fill_priors_append_filter [OF default_priors_distinct]
        fill_priors_append_filter [OF default_priors_change_points_distinct])
qed

text \<open>
  Claim C9 on a call that fails the lead-time check: the caller's priors dictionary held
  one entry and its change point held the date only.
\<close>

theorem defaults_persist_witness:
  "keys [(''prior_median_delay'', 5 :: real)] \<subseteq> keys default_priors \<and>
   keys (change_point_on 10) \<subseteq> keys default_priors_change_points \<and>
   raised (SIR_model_with_change_points example_environment [1, 2, 3]
             [change_point_on 10] (day 0) 30 0
             (Some [(''prior_median_delay'', 5)])) = Some (RuntimeError msg_diff_data_sim) \<and>
   priors_dic_final (SIR_model_with_change_points example_environment [1, 2, 3]
             [change_point_on 10] (day 0) 30 0
             (Some [(''prior_median_delay'', 5)]))
     = [(''prior_median_delay'', 5),
        (''prior_beta_I_begin'', 100),
        (''prior_median_'' @ lam @ ''_0'', float_0_4),
        (''prior_sigma_'' @ lam @ ''_0'', 0.5),
        (''prior_median_'' @ mu, 1 / 8),
        (''prior_sigma_'' @ mu, float_0_2),
        (''prior_sigma_delay'', float_0_2),
        (''prior_beta_'' @ sigma @ ''_obs'', 10)] \<and>
   change_points_final (SIR_model_with_change_points example_environment [1, 2, 3]
             [change_point_on 10] (day 0) 30 0
             (Some [(''prior_median_delay'', 5)]))
     = [[(''prior_mean_date_begin_transient'', PyDate (day 10)),
         (''prior_median_'' @ lam, PyNum float_0_4),
         (''prior_sigma_'' @ lam, PyNum 0.5),
         (''prior_sigma_date_begin_transient'', PyNum 3),
         (''prior_median_transient_len'', PyNum 3),
         (''prior_sigma_transient_len'', PyNum float_0_3)]]"
  using defaults_persist [where priors_arg = "Some [(''prior_median_delay'', 5)]"
      and change_points_list = "[change_point_on 10]" and new_cases_obs = "[1, 2, 3]"
      and date_begin_simulation = "day 0" and num_days_sim = 30 and diff_data_sim = 0
      and E = example_environment]
  by (simp add: run_simps)

section \<open>A change point without its date\<close>

text \<open>
  Claim C10: let all keys be recognised and let a change point lack the key
  \<^verbatim>\<open>prior_mean_date_begin_transient\<close>. Then no unknown-option error is raised; the
  change point ends with \<^verbatim>\<open>None\<close> under that key; and the call never returns a model.
  It fails a horizon check, or it fails inside the model context: with an exception out
  of a PyMC3 call, or, after the first variables are declared, with a type error (or the
  ordering error of earlier change points). When the change point is the first of the
  list, the horizon checks pass and no PyMC3 call raises, the failure is the type error.
\<close>

theorem missing_transition_date:
  fixes E :: environment and priors_arg :: "real dict option" and priors_dic :: "real dict"
    and change_points_list :: "pyval dict list" and new_cases_obs :: "real list"
    and date_begin_simulation :: datetime and num_days_sim diff_data_sim :: int
    and R :: outcome
  defines "priors_dic \<equiv> (case priors_arg of None \<Rightarrow> [] | Some d \<Rightarrow> d)"
    and "R \<equiv> SIR_model_with_change_points E new_cases_obs change_points_list
                date_begin_simulation num_days_sim diff_data_sim priors_arg"
  assumes v1: "keys priors_dic \<subseteq> keys default_priors"
    and v2: "\<forall>cp\<in>set change_points_list. keys cp \<subseteq> keys default_priors_change_points"
    and i: "i < length change_points_list"
    and missing: "\<not> contains (change_points_list ! i) ''prior_mean_date_begin_transient''"
  shows "(\<forall>name. raised R \<noteq> Some (RuntimeError (msg_not_known name)))
       \<and> map_of (change_points_final R ! i) ''prior_mean_date_begin_transient'' = Some PyNone
       \<and> raised R \<noteq> None
       \<and> (raised R = Some (RuntimeError msg_diff_data_sim) \<or>
          raised R = Some (RuntimeError msg_num_days_sim) \<or>
          raised R = Some TypeError \<or>
          raised R = Some (RuntimeError msg_not_ordered) \<or>
          (\<exists>c. raised R = Some (PyMC3Error c)))
       \<and> (raised R = Some TypeError \<or> raised R = Some (RuntimeError msg_not_ordered) \<longrightarrow>
            model R \<noteq> [])
       \<and> (i = 0 \<and> delay_prior_in_range priors_dic \<and>
          raised R \<noteq> Some (RuntimeError msg_diff_data_sim) \<and>
          raised R \<noteq> Some (RuntimeError msg_num_days_sim) \<and>
          (\<forall>c. raised R \<noteq> Some (PyMC3Error c)) \<longrightarrow> raised R = Some TypeError)"
proof -
  define P where "P = fill_priors default_priors priors_dic"
  define C where "C = map (fill_priors default_priors_change_points) change_points_list"
  from delay_priors_exist [of priors_dic] obtain md sd where
    md: "map_of (priors_dic @ default_priors) ''prior_median_delay'' = Some md" and
    sd: "map_of (priors_dic @ default_priors) ''prior_sigma_delay'' = Some sd" by blast
  note rc = run_valid_cases [OF v1 v2 priors_dic_def [THEN meta_eq_to_obj_eq] md sd
      R_def [THEN meta_eq_to_obj_eq] P_def C_def]
  have Pf: "\<forall>k. contains default_priors k \<longrightarrow> contains P k"
    unfolding P_def by (rule filled_priors)
  have Cf: "\<forall>cp\<in>set C. \<forall>k. contains default_priors_change_points k \<longrightarrow> contains cp k"
    unfolding C_def by (rule filled_change_points)
  have Ci: "C ! i = fill_priors default_priors_change_points (change_points_list ! i)"
    and iC: "C ! i \<in> set C"
    using i by (simp_all add: C_def)
  from missing have "map_of (change_points_list ! i) ''prior_mean_date_begin_transient'' = None"
    by (simp add: contains_iff)
  then have none: "map_of (C ! i) ''prior_mean_date_begin_transient'' = Some PyNone"
    by (simp add: Ci map_of_fill_priors map_add_def map_of_default_date)
  have noInr: "model_context E new_cases_obs C date_begin_simulation num_days_sim
                 diff_data_sim P \<noteq> Inr r" for r
    by (rule model_context_None_date [OF iC none])
  have a: "\<forall>name. raised R \<noteq> Some (RuntimeError (msg_not_known name))"
    using run_valid_raised [OF v1 v2 priors_dic_def [THEN meta_eq_to_obj_eq]
      R_def [THEN meta_eq_to_obj_eq]] msgs_distinct by auto
  have b: "map_of (change_points_final R ! i) ''prior_mean_date_begin_transient'' = Some PyNone"
    using rc none by simp
  have c: "raised R = Some (RuntimeError msg_diff_data_sim) \<or>
          raised R = Some (RuntimeError msg_num_days_sim) \<or>
          raised R = Some TypeError \<or>
          raised R = Some (RuntimeError msg_not_ordered) \<or>
          (\<exists>c. raised R = Some (PyMC3Error c))"
    using rc noInr by (auto split: if_splits sum.splits prod.splits)
  then have c': "raised R \<noteq> None" by auto
  have d: "raised R = Some TypeError \<or> raised R = Some (RuntimeError msg_not_ordered) \<longrightarrow>
            model R \<noteq> []"
    using rc noInr msgs_distinct by (auto split: if_splits sum.splits prod.splits)
  have e: "raised R = Some TypeError"
    if "i = 0 \<and> delay_prior_in_range priors_dic \<and>
          raised R \<noteq> Some (RuntimeError msg_diff_data_sim) \<and>
          raised R \<noteq> Some (RuntimeError msg_num_days_sim) \<and>
          (\<forall>c. raised R \<noteq> Some (PyMC3Error c))"
  proof -
    from that i obtain c0 rest where C0: "C = c0 # rest" and c0: "c0 = C ! i"
      by (cases C) (auto simp: C_def)
    from model_context_head_None [OF Pf Cf [unfolded C0] none [folded c0]]
    obtain e m where
      mc: "model_context E new_cases_obs C date_begin_simulation num_days_sim diff_data_sim P
       = Inl (e, m)" and e: "e = TypeError \<or> (\<exists>c. e = PyMC3Error c)"
      unfolding C0 by blast
    from rc that mc have "raised R = Some e" by (auto split: if_splits)
    then show ?thesis using e that by auto
  qed
  show ?thesis using a b c c' d e by blast
qed

text \<open>
  Claim C10 on a call whose only change point is the empty dictionary: the type error
  is raised after \<^verbatim>\<open>I_begin\<close> and the two rates are declared.
\<close>

theorem missing_transition_date_witness:
  "keys ([] :: real dict) \<subseteq> keys default_priors \<and>
   keys ([] :: pyval dict) \<subseteq> keys default_priors_change_points \<and>
   0 < length [[] :: pyval dict] \<and>
   \<not> contains ([[] :: pyval dict] ! 0) ''prior_mean_date_begin_transient'' \<and>
   delay_prior_in_range [] \<and>
   raised (SIR_model_with_change_points example_environment [1, 2, 3] [[]] (day 0) 30 13 None)
     = Some TypeError \<and>
   map fst (model (SIR_model_with_change_points example_environment [1, 2, 3] [[]]
                     (day 0) 30 13 None))
     = [''I_begin'', lam @ ''_0'', lam @ ''_1''] \<and>
   map_of (change_points_final (SIR_model_with_change_points example_environment [1, 2, 3]
                                  [[]] (day 0) 30 13 None) ! 0)
     ''prior_mean_date_begin_transient'' = Some PyNone"
  using missing_transition_date [where E = example_environment and priors_arg = None
      and change_points_list = "[[]]" and new_cases_obs = "[1, 2, 3]"
      and date_begin_simulation = "day 0" and num_days_sim = 30 and diff_data_sim = 13
      and i = 0]
  by (simp add: run_simps delay_prior_in_range_def)

end
